theory Spec2Isabelle
  imports Main
begin

section \<open>JavaScript values used by the data hook and the data-management section\<close>

text \<open>
  A JavaScript string is a sequence of UTF-16 code units; it is modelled as the list of
  its code units. ASCII text is written with \<open>js\<close>, the words of the sheet vocabulary
  that are not ASCII are given by their code units.
\<close>

type_synonym jsstring = "nat list"

definition js :: "string \<Rightarrow> jsstring" where
  "js s = map of_char s"

text \<open>
  \<open>String.prototype.toLowerCase\<close>, modelled on the letters A to Z; every other code
  unit is left as it is.
\<close>

definition lowerUnit :: "nat \<Rightarrow> nat" where
  "lowerUnit c = (if 65 \<le> c \<and> c \<le> 90 then c + 32 else c)"

definition toLowerCase :: "jsstring \<Rightarrow> jsstring" where
  "toLowerCase s = map lowerUnit s"

text \<open>\<open>String.prototype.startsWith\<close> and \<open>String.prototype.includes\<close> (named \<open>str_includes\<close> here).\<close>

fun startsWith :: "jsstring \<Rightarrow> jsstring \<Rightarrow> bool" where
  "startsWith s [] = True"
| "startsWith [] (c # cs) = False"
| "startsWith (d # ds) (c # cs) = (d = c \<and> startsWith ds cs)"

fun str_includes :: "jsstring \<Rightarrow> jsstring \<Rightarrow> bool" where
  "str_includes [] sub = (sub = [])"
| "str_includes (d # ds) sub = (startsWith (d # ds) sub \<or> str_includes ds sub)"

definition upperUnit :: "nat \<Rightarrow> nat" where
  "upperUnit c = (if 97 \<le> c \<and> c \<le> 122 then c - 32 else c)"

definition toUpperCase :: "jsstring \<Rightarrow> jsstring" where
  "toUpperCase s = map upperUnit s"

text \<open>
  Numbers. A JavaScript number is an IEEE double; its arithmetic is not defined here. The
  numbers are the values of a type \<open>'n\<close>, and what the runtime does with them is a
  parameter of every operation below: the number of a non-negative whole literal or of an
  array length, \<open>x + y\<close>, the numbers that are falsy (\<open>0\<close>, \<open>-0\<close>, \<open>NaN\<close>),
  \<open>x !== y\<close>, \<open>String(x)\<close>, \<open>Number(s)\<close> of a string, and \<open>NaN\<close>. Nothing is
  assumed of them: \<open>+\<close> need not be associative or exact.
\<close>

record 'n numops =
  num_lit :: "nat \<Rightarrow> 'n"
  num_add :: "'n \<Rightarrow> 'n \<Rightarrow> 'n"
  num_falsy :: "'n \<Rightarrow> bool"
  num_ne :: "'n \<Rightarrow> 'n \<Rightarrow> bool"
  num_str :: "'n \<Rightarrow> jsstring"
  num_of_str :: "jsstring \<Rightarrow> 'n"
  num_nan :: 'n

text \<open>\<open>x || 0\<close> on a number.\<close>

definition orZero :: "'n numops \<Rightarrow> 'n \<Rightarrow> 'n" where
  "orZero ops x = (if num_falsy ops x then num_lit ops 0 else x)"

text \<open>
  The decimal digits of a natural number, as a template string prints the milliseconds of
  \<open>Date.now()\<close>.
\<close>

function digits :: "nat \<Rightarrow> jsstring" where
  "digits n = (if n < 10 then [48 + n] else digits (n div 10) @ [48 + n mod 10])"
  by pat_completeness auto
termination
  by (relation "measure id") auto

declare digits.simps [simp del]

text \<open>
  A cell of a row of \<open>XLSX.utils.sheet_to_json(worksheet, {header: 1})\<close>: a hole of the
  row array reads as \<open>undefined\<close>.
\<close>

datatype 'n cell = Undefined | Null | Str jsstring | Num 'n | Bool bool

type_synonym 'n row = "'n cell list"

text \<open>\<open>row[i]\<close>: an index beyond the end of the array gives \<open>undefined\<close>.\<close>

definition at :: "'n row \<Rightarrow> nat \<Rightarrow> 'n cell" where
  "at r i = (if i < length r then r ! i else Undefined)"

text \<open>The truth value of a cell in a condition, \<open>x || d\<close>, and \<open>String(x)\<close>.\<close>

fun truthy :: "'n numops \<Rightarrow> 'n cell \<Rightarrow> bool" where
  "truthy ops Undefined = False"
| "truthy ops Null = False"
| "truthy ops (Str s) = (s \<noteq> [])"
| "truthy ops (Num n) = (\<not> num_falsy ops n)"
| "truthy ops (Bool b) = b"

definition orElse :: "'n numops \<Rightarrow> 'n cell \<Rightarrow> 'n cell \<Rightarrow> 'n cell" where
  "orElse ops x d = (if truthy ops x then x else d)"

fun String_cell :: "'n numops \<Rightarrow> 'n cell \<Rightarrow> jsstring" where
  "String_cell ops Undefined = js ''undefined''"
| "String_cell ops Null = js ''null''"
| "String_cell ops (Str s) = s"
| "String_cell ops (Num n) = num_str ops n"
| "String_cell ops (Bool b) = (if b then js ''true'' else js ''false'')"

text \<open>\<open>Number(x)\<close>\<close>

fun Number_cell :: "'n numops \<Rightarrow> 'n cell \<Rightarrow> 'n" where
  "Number_cell ops Undefined = num_nan ops"
| "Number_cell ops Null = num_lit ops 0"
| "Number_cell ops (Str s) = num_of_str ops s"
| "Number_cell ops (Num n) = n"
| "Number_cell ops (Bool b) = num_lit ops (if b then 1 else 0)"

text \<open>\<open>Number(x) || 0\<close>\<close>

definition NumberOr0 :: "'n numops \<Rightarrow> 'n cell \<Rightarrow> 'n" where
  "NumberOr0 ops x = orZero ops (Number_cell ops x)"

text \<open>\<open>String(x || '')\<close>, \<open>String(x || 'Active')\<close> and \<open>x ? String(x) : null\<close>.\<close>

definition StringOr :: "'n numops \<Rightarrow> 'n cell \<Rightarrow> jsstring \<Rightarrow> jsstring" where
  "StringOr ops x d = String_cell ops (orElse ops x (Str d))"

definition StringOrNull :: "'n numops \<Rightarrow> 'n cell \<Rightarrow> jsstring option" where
  "StringOrNull ops x = (if truthy ops x then Some (String_cell ops x) else None)"

text \<open>\<open>x !== undefined ? String(x).toUpperCase() === 'TRUE' : d\<close>.\<close>

definition flagOr :: "'n numops \<Rightarrow> 'n cell \<Rightarrow> bool \<Rightarrow> bool" where
  "flagOr ops x d =
     (if x \<noteq> Undefined then toUpperCase (String_cell ops x) = js ''TRUE'' else d)"

section \<open>Record schemas\<close>

text \<open>
  The interfaces of \<open>types/index.ts\<close>. An optional or nullable field is an \<open>option\<close>:
  \<open>None\<close> stands for a field that is unset (\<open>undefined\<close>) or \<open>null\<close>.
\<close>

record 'n Grant =
  g_id :: 'n
  g_programType :: jsstring
  g_grantType :: jsstring
  g_icocApproval :: jsstring
  g_totalAwards :: 'n
  g_awardValue :: 'n
  g_awardStatus :: jsstring
  g_notes :: "jsstring option"
  g_isNew :: bool

record 'n ActiveGrant =
  ag_grantNumber :: jsstring
  ag_programType :: jsstring
  ag_grantType :: jsstring
  ag_grantTitle :: jsstring
  ag_diseaseFocus :: "jsstring option"
  ag_principalInvestigator :: jsstring
  ag_awardValue :: 'n
  ag_icocApproval :: "jsstring option"
  ag_awardStatus :: jsstring
  ag_sortOrder :: "'n option"
  ag_isNew :: "bool option"
  ag_previousAwardValue :: "'n option"
  ag_previousAwardStatus :: "jsstring option"
  ag_showValueChange :: "bool option"
  ag_showStatusChange :: "bool option"
  ag_detailUrl :: "jsstring option"

record Paper =
  p_title :: jsstring
  p_researchTopic :: jsstring
  p_authors :: jsstring
  p_publication :: jsstring
  p_publishedOnline :: "jsstring option"
  p_manualUpdateDate :: "jsstring option"
  p_grantNumber :: jsstring
  p_grantNumbers :: "jsstring list"
  p_grantType :: jsstring
  p_programType :: jsstring
  p_grantTitle :: jsstring
  p_awardStatus :: jsstring

record 'n DataSummary =
  totalGrants :: 'n
  totalProjects :: 'n
  totalAmount :: 'n
  activeProjects :: 'n
  totalPapers :: 'n
  activeGrantsCount :: "'n option"

text \<open>
  \<open>CIRMData\<close> and \<open>Partial<CIRMData>\<close>. The hook stores an imported partial as the
  data set (\<open>imported as CIRMData\<close>), so one record with optional fields stands for both.
  \<open>rest\<close> holds \<open>updateDate\<close>, \<open>programStats\<close>, \<open>yearlyStats\<close> and \<open>visualization\<close>,
  which no operation below reads or changes.
\<close>

record ('n, 'x) CIRMData =
  summary :: "'n DataSummary option"
  grants :: "'n Grant list option"
  activeGrants :: "'n ActiveGrant list option"
  papers :: "Paper list option"
  rest :: "'x option"

section \<open>Sheet names\<close>

definition w_grant :: jsstring where "w_grant = js ''grant''"
definition w_active :: jsstring where "w_active = js ''active''"
definition w_paper :: jsstring where "w_paper = js ''paper''"
definition w_publication :: jsstring where "w_publication = js ''publication''"

text \<open>The Chinese words of the vocabulary, as UTF-16 code units.\<close>

definition w_zizhu :: jsstring where
  "w_zizhu = [0x8D44, 0x52A9]"

definition w_jinxingzhong :: jsstring where
  "w_jinxingzhong = [0x8FDB, 0x884C, 0x4E2D]"

definition w_xiangmu :: jsstring where
  "w_xiangmu = [0x9879, 0x76EE]"

definition w_juti_xiangmu :: jsstring where
  "w_juti_xiangmu = [0x5177, 0x4F53, 0x9879, 0x76EE]"

definition w_wenxian :: jsstring where
  "w_wenxian = [0x6587, 0x732E]"

definition w_lunwen :: jsstring where
  "w_lunwen = [0x8BBA, 0x6587]"

datatype sheetType = Grants | ActiveGrants | Papers | Unknown

text \<open>
  The branch that \<open>parseExcelFile\<close> (hook \<open>useCIRMData\<close>) takes for a sheet, in the
  order of its \<open>if\<close> / \<open>else if\<close> chain; \<open>Unknown\<close> stands for no branch taken, the sheet
  is skipped.
\<close>

definition parseExcelFile_sheetType :: "jsstring \<Rightarrow> sheetType" where
  "parseExcelFile_sheetType sheetName =
     (let lowerName = toLowerCase sheetName in
      if str_includes lowerName w_grant \<or> str_includes lowerName w_zizhu then Grants
      else if str_includes lowerName w_active \<or> str_includes lowerName w_jinxingzhong
              \<or> str_includes lowerName w_xiangmu then ActiveGrants
      else if str_includes lowerName w_paper \<or> str_includes lowerName w_wenxian
              \<or> str_includes lowerName w_lunwen then Papers
      else Unknown)"

text \<open>\<open>detectSheetType\<close> of the data-management section (the editor).\<close>

definition detectSheetType :: "jsstring \<Rightarrow> sheetType" where
  "detectSheetType sheetName =
     (let lowerName = toLowerCase sheetName in
      if str_includes lowerName w_active \<or> str_includes lowerName w_jinxingzhong
         \<or> str_includes lowerName w_juti_xiangmu then ActiveGrants
      else if str_includes lowerName w_grant \<and> \<not> str_includes lowerName w_active then Grants
      else if str_includes lowerName w_paper \<or> str_includes lowerName w_wenxian
              \<or> str_includes lowerName w_lunwen \<or> str_includes lowerName w_publication then Papers
      else Unknown)"

section \<open>Rows to records\<close>

text \<open>
  A sheet is its name and the rows of \<open>sheet_to_json\<close> (the header row first); a workbook
  is the list of its sheets in the order of \<open>SheetNames\<close>.
\<close>

type_synonym 'n sheet = "jsstring \<times> 'n row list"

text \<open>\<open>(row, idx) => ({id: idx + 1, programType: String(row[0] || ''), ...})\<close>, in both files.\<close>

definition grantOfRow :: "'n numops \<Rightarrow> nat \<Rightarrow> 'n row \<Rightarrow> 'n Grant" where
  "grantOfRow ops idx r =
     \<lparr> g_id = num_add ops (num_lit ops idx) (num_lit ops 1),
       g_programType = StringOr ops (at r 0) [],
       g_grantType = StringOr ops (at r 1) [],
       g_icocApproval = StringOr ops (at r 2) [],
       g_totalAwards = NumberOr0 ops (at r 3),
       g_awardValue = NumberOr0 ops (at r 4),
       g_awardStatus = StringOr ops (at r 5) (js ''Active''),
       g_notes = StringOrNull ops (at r 6),
       g_isNew = False \<rparr>"

text \<open>\<open>rows.map((row, idx) => ...)\<close>\<close>

definition mapIdx :: "(nat \<Rightarrow> 'a \<Rightarrow> 'b) \<Rightarrow> 'a list \<Rightarrow> 'b list" where
  "mapIdx f xs = map (\<lambda>(i, x). f i x) (enumerate 0 xs)"

text \<open>The active-grant row of \<open>parseExcelFile\<close>: the change flags default to \<open>true\<close>.\<close>

definition activeGrantOfRow :: "'n numops \<Rightarrow> 'n row \<Rightarrow> 'n ActiveGrant" where
  "activeGrantOfRow ops r =
     \<lparr> ag_grantNumber = StringOr ops (at r 0) [],
       ag_programType = StringOr ops (at r 1) [],
       ag_grantType = StringOr ops (at r 2) [],
       ag_grantTitle = StringOr ops (at r 3) [],
       ag_diseaseFocus = StringOrNull ops (at r 4),
       ag_principalInvestigator = StringOr ops (at r 5) [],
       ag_awardValue = NumberOr0 ops (at r 6),
       ag_icocApproval = StringOrNull ops (at r 7),
       ag_awardStatus = StringOr ops (at r 8) (js ''Active''),
       ag_sortOrder = (if at r 9 \<noteq> Undefined then Some (Number_cell ops (at r 9)) else None),
       ag_isNew = Some (flagOr ops (at r 10) False),
       ag_previousAwardValue = None,
       ag_previousAwardStatus = None,
       ag_showValueChange = Some (flagOr ops (at r 11) True),
       ag_showStatusChange = Some (flagOr ops (at r 12) True),
       ag_detailUrl = None \<rparr>"

text \<open>
  The active-grant row of the editor (\<open>processEditorFile\<close>): the change flags default to
  \<open>false\<close>, and columns 13 and 14 give the previous value and status.
\<close>

definition editorActiveGrantOfRow :: "'n numops \<Rightarrow> 'n row \<Rightarrow> 'n ActiveGrant" where
  "editorActiveGrantOfRow ops r =
     \<lparr> ag_grantNumber = StringOr ops (at r 0) [],
       ag_programType = StringOr ops (at r 1) [],
       ag_grantType = StringOr ops (at r 2) [],
       ag_grantTitle = StringOr ops (at r 3) [],
       ag_diseaseFocus = StringOrNull ops (at r 4),
       ag_principalInvestigator = StringOr ops (at r 5) [],
       ag_awardValue = NumberOr0 ops (at r 6),
       ag_icocApproval = StringOrNull ops (at r 7),
       ag_awardStatus = StringOr ops (at r 8) (js ''Active''),
       ag_sortOrder = (if at r 9 \<noteq> Undefined then Some (Number_cell ops (at r 9)) else None),
       ag_isNew = Some (flagOr ops (at r 10) False),
       ag_previousAwardValue =
         (if at r 13 \<noteq> Undefined \<and> at r 13 \<noteq> Str [] then Some (Number_cell ops (at r 13))
          else None),
       ag_previousAwardStatus =
         (if at r 14 \<noteq> Undefined \<and> at r 14 \<noteq> Str [] then Some (String_cell ops (at r 14))
          else None),
       ag_showValueChange = Some (flagOr ops (at r 11) False),
       ag_showStatusChange = Some (flagOr ops (at r 12) False),
       ag_detailUrl = None \<rparr>"

text \<open>
  The paper row. \<open>rx\<close> is \<open>s.match(/[A-Z]+\d+[A-Z]?-?[\dA-Z]*/g) || []\<close>, a parameter.
  \<open>parseExcelFile\<close> and the CSV branch of \<open>importData\<close> leave \<open>manualUpdateDate\<close> unset; the
  editor reads it from column 10.
\<close>

definition paperOfRow ::
  "'n numops \<Rightarrow> (jsstring \<Rightarrow> jsstring list) \<Rightarrow> 'n row \<Rightarrow> Paper" where
  "paperOfRow ops rx r =
     (let grantNumber = StringOr ops (at r 5) [] in
      \<lparr> p_title = StringOr ops (at r 0) [],
        p_researchTopic = StringOr ops (at r 1) [],
        p_authors = StringOr ops (at r 2) [],
        p_publication = StringOr ops (at r 3) [],
        p_publishedOnline = StringOrNull ops (at r 4),
        p_manualUpdateDate = None,
        p_grantNumber = grantNumber,
        p_grantNumbers = rx grantNumber,
        p_grantType = StringOr ops (at r 6) [],
        p_programType = StringOr ops (at r 7) [],
        p_grantTitle = StringOr ops (at r 8) [],
        p_awardStatus = StringOr ops (at r 9) [] \<rparr>)"

definition editorPaperOfRow ::
  "'n numops \<Rightarrow> (jsstring \<Rightarrow> jsstring list) \<Rightarrow> 'n row \<Rightarrow> Paper" where
  "editorPaperOfRow ops rx r =
     (paperOfRow ops rx r) \<lparr> p_manualUpdateDate := StringOrNull ops (at r 10) \<rparr>"

section \<open>The importer: \<open>parseExcelFile\<close>\<close>

text \<open>\<open>row => row[0] !== undefined && row[0] !== null\<close>, the filter of all three branches.\<close>

definition firstCellPresent :: "'n row \<Rightarrow> bool" where
  "firstCellPresent r = (at r 0 \<noteq> Undefined \<and> at r 0 \<noteq> Null)"

definition parseGrantRows :: "'n numops \<Rightarrow> 'n row list \<Rightarrow> 'n Grant list" where
  "parseGrantRows ops jsonData = mapIdx (grantOfRow ops) (filter firstCellPresent (drop 1 jsonData))"

definition parseActiveGrantRows :: "'n numops \<Rightarrow> 'n row list \<Rightarrow> 'n ActiveGrant list" where
  "parseActiveGrantRows ops jsonData =
     map (activeGrantOfRow ops) (filter firstCellPresent (drop 1 jsonData))"

definition parsePaperRows ::
  "'n numops \<Rightarrow> (jsstring \<Rightarrow> jsstring list) \<Rightarrow> 'n row list \<Rightarrow> Paper list" where
  "parsePaperRows ops rx jsonData =
     map (paperOfRow ops rx) (filter firstCellPresent (drop 1 jsonData))"

text \<open>\<open>result.grants || []\<close>\<close>

definition orEmpty :: "'a list option \<Rightarrow> 'a list" where
  "orEmpty xs = (case xs of None \<Rightarrow> [] | Some ys \<Rightarrow> ys)"

text \<open>The body of \<open>workbook.SheetNames.forEach\<close> in \<open>parseExcelFile\<close>.\<close>

definition parseExcelSheet ::
  "'n numops \<Rightarrow> (jsstring \<Rightarrow> jsstring list) \<Rightarrow> ('n, 'x) CIRMData \<Rightarrow> 'n sheet
     \<Rightarrow> ('n, 'x) CIRMData" where
  "parseExcelSheet ops rx result sh =
     (case parseExcelFile_sheetType (fst sh) of
        Grants \<Rightarrow> result \<lparr> grants := Some (orEmpty (grants result) @ parseGrantRows ops (snd sh)) \<rparr>
      | ActiveGrants \<Rightarrow>
          result \<lparr> activeGrants :=
                     Some (orEmpty (activeGrants result) @ parseActiveGrantRows ops (snd sh)) \<rparr>
      | Papers \<Rightarrow> result \<lparr> papers := Some (orEmpty (papers result) @ parsePaperRows ops rx (snd sh)) \<rparr>
      | Unknown \<Rightarrow> result)"

definition emptyParse :: "('n, 'x) CIRMData" where
  "emptyParse = \<lparr> summary = None, grants = Some [], activeGrants = Some [], papers = Some [],
                  rest = None \<rparr>"

definition parseExcelFile ::
  "'n numops \<Rightarrow> (jsstring \<Rightarrow> jsstring list) \<Rightarrow> 'n sheet list \<Rightarrow> ('n, 'x) CIRMData" where
  "parseExcelFile ops rx workbook = foldl (parseExcelSheet ops rx) emptyParse workbook"

section \<open>The editor: \<open>processEditorFile\<close>\<close>

text \<open>\<open>row.some(cell => cell !== undefined && cell !== null && cell !== '')\<close>\<close>

definition someCellFilled :: "'n row \<Rightarrow> bool" where
  "someCellFilled r = list_ex (\<lambda>c. c \<noteq> Undefined \<and> c \<noteq> Null \<and> c \<noteq> Str []) r"

definition editorRows :: "'n row list \<Rightarrow> 'n row list" where
  "editorRows jsonData = filter someCellFilled (drop 1 jsonData)"

definition editorGrantRows :: "'n numops \<Rightarrow> 'n row list \<Rightarrow> 'n Grant list" where
  "editorGrantRows ops rows = filter (\<lambda>g. g_grantType g \<noteq> []) (mapIdx (grantOfRow ops) rows)"

definition editorActiveGrantRows :: "'n numops \<Rightarrow> 'n row list \<Rightarrow> 'n ActiveGrant list" where
  "editorActiveGrantRows ops rows =
     filter (\<lambda>ag. ag_grantNumber ag \<noteq> []) (map (editorActiveGrantOfRow ops) rows)"

definition editorPaperRows ::
  "'n numops \<Rightarrow> (jsstring \<Rightarrow> jsstring list) \<Rightarrow> 'n row list \<Rightarrow> Paper list" where
  "editorPaperRows ops rx rows =
     filter (\<lambda>p. p_title p \<noteq> []) (map (editorPaperOfRow ops rx) rows)"

text \<open>
  The body of \<open>workbook.SheetNames.forEach\<close> in \<open>processEditorFile\<close>, for the parsed data
  (the preview list that the body also fills is display state and is left out).
\<close>

definition processEditorSheet ::
  "'n numops \<Rightarrow> (jsstring \<Rightarrow> jsstring list) \<Rightarrow> ('n, 'x) CIRMData \<Rightarrow> 'n sheet
     \<Rightarrow> ('n, 'x) CIRMData" where
  "processEditorSheet ops rx parsedData sh =
     (if snd sh = [] then parsedData
      else
        let rows = editorRows (snd sh) in
        case detectSheetType (fst sh) of
          Grants \<Rightarrow>
            parsedData \<lparr> grants := Some (orEmpty (grants parsedData) @ editorGrantRows ops rows) \<rparr>
        | ActiveGrants \<Rightarrow>
            parsedData \<lparr> activeGrants :=
                           Some (orEmpty (activeGrants parsedData) @ editorActiveGrantRows ops rows) \<rparr>
        | Papers \<Rightarrow>
            parsedData \<lparr> papers := Some (orEmpty (papers parsedData) @ editorPaperRows ops rx rows) \<rparr>
        | Unknown \<Rightarrow> parsedData)"

definition processEditorFile ::
  "'n numops \<Rightarrow> (jsstring \<Rightarrow> jsstring list) \<Rightarrow> 'n sheet list \<Rightarrow> ('n, 'x) CIRMData" where
  "processEditorFile ops rx workbook = foldl (processEditorSheet ops rx) emptyParse workbook"

section \<open>The change log\<close>

datatype changeType = Add | Update | Delete

datatype entityType = GrantEntity | PaperEntity

text \<open>The values of the \<open>changes\<close> field that the operations below write.\<close>

datatype 'n anyValue = JNull | JObject "(jsstring \<times> 'n) list"

record 'n Snapshot =
  snap_grants :: "'n Grant list option"
  snap_activeGrants :: "'n ActiveGrant list option"
  snap_papers :: "Paper list option"
  snap_summary :: "'n DataSummary option"

text \<open>\<open>Omit<DataChange, 'id' | 'timestamp'>\<close> and \<open>DataChange\<close>.\<close>

record 'n ChangeDesc =
  c_type :: changeType
  c_entityType :: entityType
  c_entityId :: jsstring
  c_changes :: "(jsstring \<times> 'n anyValue \<times> 'n anyValue) list"
  c_snapshot :: "'n Snapshot option"

record 'n DataChange = "'n ChangeDesc" +
  c_id :: jsstring
  c_timestamp :: jsstring

text \<open>
  What one call of \<open>recordChange\<close> reads from its environment: \<open>Date.now()\<close> (milliseconds
  since 1970), \<open>Math.random().toString(36).substr(2, 9)\<close> and \<open>new Date().toISOString()\<close>.
\<close>

record clock =
  now :: nat
  random36 :: jsstring
  isoNow :: jsstring

datatype jserror = InvalidDataFormat | TypeError | ParseError | QuotaExceeded

text \<open>
  The state of the hook \<open>useCIRMData\<close>: the data in memory (\<open>data\<close>), the data set that
  \<open>localStorage\<close> holds under \<open>STORAGE_KEY\<close> (\<open>stored\<close>), the change list and the error.
\<close>

record ('n, 'x) state =
  data :: "('n, 'x) CIRMData option"
  stored :: "('n, 'x) CIRMData option"
  changes :: "'n DataChange list"
  error :: "jserror option"

text \<open>
  \<open>saveData\<close>: \<open>setData(newData)\<close> and then \<open>localStorage.setItem(...)\<close>. The write to
  the storage can throw (the quota); \<open>writable\<close> says whether it goes through in this
  call. When it throws, the data in memory is already the new data. The result is the
  exception, if any, and the state afterwards.
\<close>

definition saveData ::
  "bool \<Rightarrow> ('n, 'x) CIRMData \<Rightarrow> ('n, 'x) state \<Rightarrow> jserror option \<times> ('n, 'x) state" where
  "saveData writable newData st =
     (if writable then (None, st \<lparr> data := Some newData, stored := Some newData \<rparr>)
      else (Some QuotaExceeded, st \<lparr> data := Some newData \<rparr>))"

text \<open>The template string \<open>`${Date.now()}-${...}`\<close>.\<close>

definition changeId :: "nat \<Rightarrow> jsstring \<Rightarrow> jsstring" where
  "changeId t r = digits t @ 45 # r"

definition recordChange :: "clock \<Rightarrow> 'n ChangeDesc \<Rightarrow> ('n, 'x) state \<Rightarrow> ('n, 'x) state" where
  "recordChange ck change st =
     (let newChange =
        \<lparr> c_type = c_type change, c_entityType = c_entityType change,
          c_entityId = c_entityId change, c_changes = c_changes change,
          c_snapshot = c_snapshot change,
          c_id = changeId (now ck) (random36 ck), c_timestamp = isoNow ck \<rparr>
      in st \<lparr> changes := newChange # changes st \<rparr>)"

section \<open>The merge of active grants\<close>

text \<open>
  A JavaScript \<open>Map\<close>: the entries in insertion order, one per key. \<open>set\<close> on a key that
  is present replaces the value in place, on a new key it appends the entry.
\<close>

fun map_set :: "('k \<times> 'v) list \<Rightarrow> 'k \<Rightarrow> 'v \<Rightarrow> ('k \<times> 'v) list" where
  "map_set [] k v = [(k, v)]"
| "map_set ((k', v') # m) k v = (if k' = k then (k, v) # m else (k', v') # map_set m k v)"

definition newMap :: "('k \<times> 'v) list \<Rightarrow> ('k \<times> 'v) list" where
  "newMap entries = foldl (\<lambda>m (k, v). map_set m k v) [] entries"

definition map_get :: "('k \<times> 'v) list \<Rightarrow> 'k \<Rightarrow> 'v option" where
  "map_get m k = map_of m k"

definition map_values :: "('k \<times> 'v) list \<Rightarrow> 'v list" where
  "map_values m = map snd m"

text \<open>\<open>new Map(data.activeGrants.map(ag => [ag.grantNumber, ag]))\<close>\<close>

definition existingMap :: "'n ActiveGrant list \<Rightarrow> (jsstring \<times> 'n ActiveGrant) list" where
  "existingMap existing = newMap (map (\<lambda>ag. (ag_grantNumber ag, ag)) existing)"

text \<open>
  The body of \<open>imported.activeGrants.forEach\<close> in \<open>importData\<close>. The source assigns to the
  fields of \<open>ag\<close> and then stores \<open>ag\<close>; each imported object is visited once, so the
  assignment is the record update here. The award values are compared with \<open>!==\<close> on
  numbers, the statuses with \<open>!==\<close> on strings.
\<close>

definition mergeStep ::
  "'n numops \<Rightarrow> (jsstring \<times> 'n ActiveGrant) list \<Rightarrow> 'n ActiveGrant
     \<Rightarrow> (jsstring \<times> 'n ActiveGrant) list" where
  "mergeStep ops m ag =
     (let ag' =
        (case map_get m (ag_grantNumber ag) of
           None \<Rightarrow> ag
         | Some existing \<Rightarrow>
             let ag1 = (if num_ne ops (ag_awardValue existing) (ag_awardValue ag)
                        then ag \<lparr> ag_previousAwardValue := Some (ag_awardValue existing) \<rparr>
                        else ag);
                 ag2 = (if ag_awardStatus existing \<noteq> ag_awardStatus ag1
                        then ag1 \<lparr> ag_previousAwardStatus := Some (ag_awardStatus existing) \<rparr>
                        else ag1)
             in ag2)
      in map_set m (ag_grantNumber ag') ag')"

definition mergeActiveGrants ::
  "'n numops \<Rightarrow> 'n ActiveGrant list \<Rightarrow> 'n ActiveGrant list \<Rightarrow> 'n ActiveGrant list" where
  "mergeActiveGrants ops existing imported =
     map_values (foldl (mergeStep ops) (existingMap existing) imported)"

text \<open>The same loop in \<open>handleApplyChanges\<close> of the editor: it stores \<open>ag\<close> as it is.\<close>

definition applyActiveGrants ::
  "'n ActiveGrant list \<Rightarrow> 'n ActiveGrant list \<Rightarrow> 'n ActiveGrant list" where
  "applyActiveGrants existing edited =
     map_values (foldl (\<lambda>m ag. map_set m (ag_grantNumber ag) ag) (existingMap existing) edited)"

section \<open>\<open>importData\<close>\<close>



text \<open>
  \<open>xs.reduce((sum, g) => sum + f(g), 0)\<close>: the sum from \<open>0\<close>, one \<open>+\<close> after the other
  from the left.
\<close>

definition sumOver :: "'n numops \<Rightarrow> ('a \<Rightarrow> 'n) \<Rightarrow> 'a list \<Rightarrow> 'n" where
  "sumOver ops f xs = foldl (\<lambda>sum g. num_add ops sum (f g)) (num_lit ops 0) xs"

text \<open>
  \<open>imported.xs ? [...data.xs, ...imported.xs] : data.xs\<close>: spreading a missing array
  throws.
\<close>

definition appendImported :: "'a list option \<Rightarrow> 'a list option \<Rightarrow> jserror + 'a list option" where
  "appendImported old new =
     (case new of
        None \<Rightarrow> Inr old
      | Some ys \<Rightarrow> (case old of None \<Rightarrow> Inl TypeError | Some xs \<Rightarrow> Inr (Some (xs @ ys))))"

text \<open>
  The branch \<open>if (data) { ... }\<close> of \<open>importData\<close> up to \<open>saveData(mergedData)\<close>.
  \<open>imported.grants?.length || 0\<close> is the length of the imported array, \<open>0\<close> for a missing
  one; \<open>imported.grants?.reduce(...) || 0\<close> is the sum over it, with a falsy sum (and a
  missing array) read as \<open>0\<close>.
\<close>

definition mergeData ::
  "'n numops \<Rightarrow> ('n, 'x) CIRMData \<Rightarrow> ('n, 'x) CIRMData \<Rightarrow> jserror + ('n, 'x) CIRMData" where
  "mergeData ops d imported =
     (case (if activeGrants imported \<noteq> None \<and> orEmpty (activeGrants imported) \<noteq> []
            then (case activeGrants d of
                    None \<Rightarrow> Inl TypeError
                  | Some existing \<Rightarrow>
                      Inr (Some (mergeActiveGrants ops existing (orEmpty (activeGrants imported)))))
            else Inr (activeGrants d)) of
        Inl e \<Rightarrow> Inl e
      | Inr mergedActiveGrants \<Rightarrow>
     (case appendImported (grants d) (grants imported) of
        Inl e \<Rightarrow> Inl e
      | Inr mergedGrants \<Rightarrow>
     (case appendImported (papers d) (papers imported) of
        Inl e \<Rightarrow> Inl e
      | Inr mergedPapers \<Rightarrow>
     (case summary d of
        None \<Rightarrow> Inl TypeError
      | Some s \<Rightarrow>
          Inr (d \<lparr> grants := mergedGrants,
                   papers := mergedPapers,
                   activeGrants := mergedActiveGrants,
                   summary := Some (s \<lparr>
                     totalGrants :=
                       num_add ops (totalGrants s)
                         (num_lit ops (length (orEmpty (grants imported)))),
                     totalPapers :=
                       num_add ops (totalPapers s)
                         (num_lit ops (length (orEmpty (papers imported)))),
                     totalProjects :=
                       num_add ops (totalProjects s)
                         (orZero ops (sumOver ops g_totalAwards (orEmpty (grants imported)))),
                     totalAmount :=
                       num_add ops (totalAmount s)
                         (orZero ops (sumOver ops g_awardValue (orEmpty (grants imported))))
                     \<rparr>) \<rparr>)))))"




section \<open>\<open>updateData\<close> and the editor's \<open>handleApplyChanges\<close>\<close>

text \<open>
  \<open>updateData\<close> saves first and then builds the change descriptor from the summaries.
  It has no \<open>try\<close>: when the write to the storage throws, or when \<open>summary.totalGrants\<close>
  is read of a data set without a summary, the exception leaves \<open>updateData\<close> after the
  data in memory has been replaced, and no change is recorded. The result is the
  exception, if any, and the state afterwards.
\<close>

definition updateChange :: "'n \<Rightarrow> 'n \<Rightarrow> 'n DataSummary \<Rightarrow> 'n ChangeDesc" where
  "updateChange oldGrants oldPapers newSummary =
     \<lparr> c_type = Update, c_entityType = GrantEntity, c_entityId = js ''data-editor'',
       c_changes =
         [(js ''updated'',
           JObject [(js ''totalGrants'', oldGrants), (js ''totalPapers'', oldPapers)],
           JObject [(js ''totalGrants'', totalGrants newSummary),
                    (js ''totalPapers'', totalPapers newSummary)])],
       c_snapshot = None \<rparr>"

definition updateData ::
  "'n numops \<Rightarrow> clock \<Rightarrow> bool \<Rightarrow> ('n, 'x) CIRMData \<Rightarrow> ('n, 'x) state
     \<Rightarrow> jserror option \<times> ('n, 'x) state" where
  "updateData ops ck writable newData st =
     (case saveData writable newData st of
        (Some e, saved) \<Rightarrow> (Some e, saved)
      | (None, saved) \<Rightarrow>
          (case (case data st of
                   None \<Rightarrow> Some (num_lit ops 0, num_lit ops 0)
                 | Some d \<Rightarrow>
                     (case summary d of
                        None \<Rightarrow> None
                      | Some s \<Rightarrow>
                          Some (orZero ops (totalGrants s), orZero ops (totalPapers s)))) of
             None \<Rightarrow> (Some TypeError, saved)
           | Some (oldGrants, oldPapers) \<Rightarrow>
               (case summary newData of
                  None \<Rightarrow> (Some TypeError, saved)
                | Some ns \<Rightarrow>
                    (None, recordChange ck (updateChange oldGrants oldPapers ns) saved))))"

text \<open>\<open>g => g.awardStatus !== 'Closed'\<close>\<close>

definition notClosed :: "'n Grant \<Rightarrow> bool" where
  "notClosed g = (g_awardStatus g \<noteq> js ''Closed'')"

text \<open>\<open>a || b\<close> on two optional arrays (an array, also an empty one, is truthy).\<close>

definition orArray :: "'a list option \<Rightarrow> 'a list option \<Rightarrow> 'a list option" where
  "orArray a b = (case a of None \<Rightarrow> b | Some xs \<Rightarrow> Some xs)"

text \<open>
  The data set that \<open>handleApplyChanges\<close> builds from the current data and the edited data.
  The sums add \<open>g.totalAwards || 0\<close> and \<open>g.awardValue || 0\<close>.
  \<open>{...data.summary, ...}\<close> of a missing summary has the five computed fields only.
\<close>

definition applyChanges ::
  "'n numops \<Rightarrow> ('n, 'x) CIRMData \<Rightarrow> ('n, 'x) CIRMData \<Rightarrow> jserror + ('n, 'x) CIRMData" where
  "applyChanges ops d editedData =
     (case (if activeGrants editedData \<noteq> None \<and> orEmpty (activeGrants editedData) \<noteq> []
            then (case activeGrants d of
                    None \<Rightarrow> Inl TypeError
                  | Some existing \<Rightarrow>
                      Inr (Some (applyActiveGrants existing (orEmpty (activeGrants editedData)))))
            else Inr (activeGrants d)) of
        Inl e \<Rightarrow> Inl e
      | Inr mergedActiveGrants \<Rightarrow>
     (case orArray (grants editedData) (grants d) of
        None \<Rightarrow> Inl TypeError
      | Some gs \<Rightarrow>
     (case orArray (papers editedData) (papers d) of
        None \<Rightarrow> Inl TypeError
      | Some ps \<Rightarrow>
          Inr (d \<lparr> grants := Some gs,
                   papers := Some ps,
                   activeGrants := mergedActiveGrants,
                   summary := Some
                     \<lparr> totalGrants = num_lit ops (length gs),
                       totalProjects = sumOver ops (\<lambda>g. orZero ops (g_totalAwards g)) gs,
                       totalAmount = sumOver ops (\<lambda>g. orZero ops (g_awardValue g)) gs,
                       activeProjects =
                         sumOver ops (\<lambda>g. orZero ops (g_totalAwards g)) (filter notClosed gs),
                       totalPapers = num_lit ops (length ps),
                       activeGrantsCount =
                         (case summary d of None \<Rightarrow> None | Some s \<Rightarrow> activeGrantsCount s) \<rparr> \<rparr>))))"

text \<open>
  \<open>handleApplyChanges\<close> followed by the \<open>onUpdateData\<close> of the application, which calls
  \<open>updateData\<close>. Without edited data or without a data set it returns at once.
\<close>

definition handleApplyChanges ::
  "'n numops \<Rightarrow> clock \<Rightarrow> bool \<Rightarrow> ('n, 'x) CIRMData option \<Rightarrow> ('n, 'x) state
     \<Rightarrow> jserror option \<times> ('n, 'x) state" where
  "handleApplyChanges ops ck writable editedData st =
     (case editedData of
        None \<Rightarrow> (None, st)
      | Some e \<Rightarrow>
          (case data st of
             None \<Rightarrow> (None, st)
           | Some d \<Rightarrow>
               (case applyChanges ops d e of
                  Inl err \<Rightarrow> (Some err, st)
                | Inr newData \<Rightarrow> updateData ops ck writable newData st)))"

section \<open>Rollback\<close>



section \<open>Auxiliary notions\<close>

text \<open>
  The invariant of the lookup of active grants: one entry per key, and every record is
  filed under its own grant number.
\<close>

definition keyed :: "(jsstring \<times> 'n ActiveGrant) list \<Rightarrow> bool" where
  "keyed m = (distinct (map fst m) \<and> (\<forall>x \<in> set m. ag_grantNumber (snd x) = fst x))"

text \<open>The record that \<open>mergeStep\<close> stores for \<open>ag\<close>, in one expression.\<close>

definition detect ::
  "'n numops \<Rightarrow> (jsstring \<times> 'n ActiveGrant) list \<Rightarrow> 'n ActiveGrant \<Rightarrow> 'n ActiveGrant" where
  "detect ops m ag =
     (case map_get m (ag_grantNumber ag) of
        None \<Rightarrow> ag
      | Some existing \<Rightarrow>
          ag \<lparr> ag_previousAwardValue :=
                 (if num_ne ops (ag_awardValue existing) (ag_awardValue ag)
                  then Some (ag_awardValue existing) else ag_previousAwardValue ag),
               ag_previousAwardStatus :=
                 (if ag_awardStatus existing \<noteq> ag_awardStatus ag
                  then Some (ag_awardStatus existing) else ag_previousAwardStatus ag) \<rparr>)"

text \<open>The summary and the grants of the data set that \<open>mergeData\<close> returns.\<close>

definition mergedSummary ::
  "'n numops \<Rightarrow> ('n, 'x) CIRMData \<Rightarrow> ('n, 'x) CIRMData \<Rightarrow> 'n DataSummary option" where
  "mergedSummary ops d imported =
     (case mergeData ops d imported of Inl e \<Rightarrow> None | Inr md \<Rightarrow> summary md)"

definition mergedGrants ::
  "'n numops \<Rightarrow> ('n, 'x) CIRMData \<Rightarrow> ('n, 'x) CIRMData \<Rightarrow> 'n Grant list option" where
  "mergedGrants ops d imported =
     (case mergeData ops d imported of Inl e \<Rightarrow> None | Inr md \<Rightarrow> grants md)"

section \<open>Sample data\<close>

text \<open>
  A sample arithmetic for the evaluations below: the whole numbers and \<open>NaN\<close>, with exact
  sums and all digits printed. On whole numbers below \<open>2^53\<close> whose sums stay below
  \<open>2^53\<close>, as are all numbers of the sample data, this is what the doubles of the runtime
  compute. \<open>Number\<close> of a string is \<open>NaN\<close> here: no string of the sample rows that \<open>Number\<close>
  is applied to is a numeric literal.
\<close>

datatype whole = NaN | N int

fun addWhole :: "whole \<Rightarrow> whole \<Rightarrow> whole" where
  "addWhole (N a) (N b) = N (a + b)"
| "addWhole NaN y = NaN"
| "addWhole (N a) NaN = NaN"

fun falsyWhole :: "whole \<Rightarrow> bool" where
  "falsyWhole NaN = True"
| "falsyWhole (N a) = (a = 0)"

fun neWhole :: "whole \<Rightarrow> whole \<Rightarrow> bool" where
  "neWhole (N a) (N b) = (a \<noteq> b)"
| "neWhole NaN y = True"
| "neWhole (N a) NaN = True"

definition String_int :: "int \<Rightarrow> jsstring" where
  "String_int i = (if i < 0 then 45 # digits (nat (- i)) else digits (nat i))"

fun strWhole :: "whole \<Rightarrow> jsstring" where
  "strWhole NaN = js ''NaN''"
| "strWhole (N a) = String_int a"

definition litWhole :: "nat \<Rightarrow> whole" where
  "litWhole n = N (int n)"

definition numberOfSampleString :: "jsstring \<Rightarrow> whole" where
  "numberOfSampleString s = NaN"

definition wholeNumbers :: "whole numops" where
  "wholeNumbers =
     \<lparr> num_lit = litWhole, num_add = addWhole, num_falsy = falsyWhole, num_ne = neWhole,
       num_str = strWhole, num_of_str = numberOfSampleString, num_nan = NaN \<rparr>"

text \<open>A value for the parameter \<open>rx\<close> where the rows at hand have no grant number cell.\<close>

definition rxNone :: "jsstring \<Rightarrow> jsstring list" where
  "rxNone s = []"

definition agDisc :: "whole ActiveGrant" where
  "agDisc =
     \<lparr> ag_grantNumber = js ''DISC1-999'', ag_programType = js ''Discovery'',
       ag_grantType = js ''DISC 1'', ag_grantTitle = js ''Title A'', ag_diseaseFocus = None,
       ag_principalInvestigator = js ''PI A'', ag_awardValue = N 1000000,
       ag_icocApproval = Some (js ''2024-01-01''), ag_awardStatus = js ''Active'',
       ag_sortOrder = Some (N 1), ag_isNew = Some True, ag_previousAwardValue = None,
       ag_previousAwardStatus = None, ag_showValueChange = Some False,
       ag_showStatusChange = Some False, ag_detailUrl = None \<rparr>"

definition agDiscClosed :: "whole ActiveGrant" where
  "agDiscClosed = agDisc \<lparr> ag_awardValue := N 1200000, ag_awardStatus := js ''Closed'' \<rparr>"

definition agDiscReopened :: "whole ActiveGrant" where
  "agDiscReopened = agDisc \<lparr> ag_awardValue := N 1200000 \<rparr>"

definition agDiscCarrying :: "whole ActiveGrant" where
  "agDiscCarrying = agDisc \<lparr> ag_previousAwardValue := Some (N 77) \<rparr>"

definition agTran :: "whole ActiveGrant" where
  "agTran = agDisc \<lparr> ag_grantNumber := js ''TRAN1-100'', ag_awardValue := N 250000 \<rparr>"

definition agTranRaised :: "whole ActiveGrant" where
  "agTranRaised = agTran \<lparr> ag_awardValue := N 300000 \<rparr>"

definition grantDisc :: "whole Grant" where
  "grantDisc =
     \<lparr> g_id = N 1, g_programType = js ''Discovery'', g_grantType = js ''DISC 1'',
       g_icocApproval = js ''2024-01-01'', g_totalAwards = N 3, g_awardValue = N 4500000,
       g_awardStatus = js ''Active'', g_notes = None, g_isNew = False \<rparr>"

definition zeroSummary :: "whole DataSummary" where
  "zeroSummary =
     \<lparr> totalGrants = N 0, totalProjects = N 0, totalAmount = N 0, activeProjects = N 0,
       totalPapers = N 0, activeGrantsCount = Some (N 0) \<rparr>"

definition emptyData :: "(whole, unit) CIRMData" where
  "emptyData =
     \<lparr> summary = Some zeroSummary, grants = Some [], activeGrants = Some [], papers = Some [],
       rest = Some () \<rparr>"

definition sampleData :: "(whole, unit) CIRMData" where
  "sampleData = emptyData \<lparr> activeGrants := Some [agDisc, agTran] \<rparr>"

definition sampleImport :: "(whole, unit) CIRMData" where
  "sampleImport =
     \<lparr> summary = None, grants = Some [grantDisc], activeGrants = Some [agDiscClosed],
       papers = Some [], rest = None \<rparr>"

definition staleData :: "(whole, unit) CIRMData" where
  "staleData = emptyData \<lparr> summary := Some (zeroSummary \<lparr> totalGrants := N 5 \<rparr>) \<rparr>"








definition grantSheetRows :: "whole row list" where
  "grantSheetRows =
     [[Str (js ''Program Type''), Str (js ''Grant Type'')],
      [Str (js ''Discovery'')],
      [Undefined, Str (js ''DISC 1'')],
      [Str (js ''Education''), Str (js ''EDUC 1'')]]"

definition paperSheetRows :: "whole row list" where
  "paperSheetRows = [[Str (js ''Title'')], [Str []], [Str (js ''A paper'')], [Num (N 0)]]"

definition activeGrantsSheet :: "whole sheet" where
  "activeGrantsSheet =
     (js ''ActiveGrants'',
      [[Str (js ''Grant Number''), Str (js ''Program Type''), Str (js ''Grant Type'')],
       [Str (js ''DISC1-999''), Str (js ''Discovery''), Str (js ''DISC 1''), Str (js ''Title A''),
        Undefined, Str (js ''PI A''), Num (N 1000000), Str (js ''2024-01-01''),
        Str (js ''Active''), Num (N 1), Str (js ''TRUE''), Str (js ''FALSE''),
        Str (js ''FALSE'')]])"

section \<open>Properties\<close>

subsection \<open>Strings\<close>

lemma startsWith_iff: "startsWith s sub \<longleftrightarrow> (\<exists>q. s = sub @ q)"
  by (induction s sub rule: startsWith.induct) auto

lemma includes_iff: "str_includes s sub \<longleftrightarrow> (\<exists>p q. s = p @ sub @ q)"
proof (induction s)
  case Nil
  then show ?case by auto
next
  case (Cons d ds)
  show ?case
  proof
    assume "str_includes (d # ds) sub"
    then consider "startsWith (d # ds) sub" | "str_includes ds sub" by auto
    then show "\<exists>p q. d # ds = p @ sub @ q"
    proof cases
      case 1
      then obtain q where "d # ds = sub @ q" by (auto simp: startsWith_iff)
      then have "d # ds = [] @ sub @ q" by simp
      then show ?thesis by blast
    next
      case 2
      then obtain p q where "ds = p @ sub @ q" using Cons.IH by auto
      then have "d # ds = (d # p) @ sub @ q" by simp
      then show ?thesis by blast
    qed
  next
    assume "\<exists>p q. d # ds = p @ sub @ q"
    then obtain p q where pq: "d # ds = p @ sub @ q" by blast
    show "str_includes (d # ds) sub"
    proof (cases p)
      case Nil
      with pq have "startsWith (d # ds) sub" by (auto simp: startsWith_iff)
      then show ?thesis by simp
    next
      case (Cons e p')
      with pq have "ds = p' @ sub @ q" by simp
      then have "str_includes ds sub" using Cons.IH by blast
      then show ?thesis by simp
    qed
  qed
qed

text \<open>
  In the importer every sheet name with "grant" in it takes the Grant branch, whatever else
  the name contains; a record read from a sheet by the importer has no previous value or
  status.
\<close>

lemma parseExcelFile_sheetType_grant:
  "str_includes (toLowerCase sheetName) w_grant \<Longrightarrow> parseExcelFile_sheetType sheetName = Grants"
  by (simp add: parseExcelFile_sheetType_def)

lemma activeGrantOfRow_previous:
  "ag_previousAwardValue (activeGrantOfRow ops r) = None"
  "ag_previousAwardStatus (activeGrantOfRow ops r) = None"
  by (simp_all add: activeGrantOfRow_def)

subsection \<open>The lookup\<close>

lemma map_get_map_set: "map_get (map_set m k v) k' = (if k' = k then Some v else map_get m k')"
  by (induction m) (auto simp: map_get_def)

lemma keys_map_set:
  "map fst (map_set m k v) = (if k \<in> fst ` set m then map fst m else map fst m @ [k])"
proof (induction m)
  case Nil
  then show ?case by simp
next
  case (Cons a m)
  obtain k' v' where a: "a = (k', v')" by (cases a)
  show ?case
  proof (cases "k' = k")
    case True
    then show ?thesis by (simp add: a)
  next
    case False
    with Cons.IH show ?thesis by (simp add: a)
  qed
qed

lemma distinct_map_set: "distinct (map fst m) \<Longrightarrow> distinct (map fst (map_set m k v))"
  by (simp add: keys_map_set)

lemma set_map_set: "set (map_set m k v) \<subseteq> insert (k, v) (set m)"
proof (induction m)
  case Nil
  then show ?case by simp
next
  case (Cons a m)
  obtain k' v' where a: "a = (k', v')" by (cases a)
  from Cons.IH show ?case by (cases "k' = k") (auto simp: a)
qed

lemma keyed_map_set: "keyed m \<Longrightarrow> ag_grantNumber v = k \<Longrightarrow> keyed (map_set m k v)"
  using set_map_set[of m k v] by (auto simp: keyed_def distinct_map_set)

lemma keyed_foldl_set:
  "keyed m \<Longrightarrow>
   keyed (foldl (\<lambda>m (k, v). map_set m k v) m (map (\<lambda>ag. (ag_grantNumber ag, ag)) xs))"
  by (induction xs arbitrary: m) (auto simp: keyed_map_set)

lemma keyed_existingMap: "keyed (existingMap existing)"
  unfolding existingMap_def newMap_def by (rule keyed_foldl_set) (simp add: keyed_def)

lemma keyed_values: "keyed m \<Longrightarrow> map ag_grantNumber (map_values m) = map fst m"
  by (simp add: keyed_def map_values_def)

lemma keyed_distinct: "keyed m \<Longrightarrow> distinct (map ag_grantNumber (map_values m))"
  by (simp add: keyed_values) (simp add: keyed_def)

lemma keyed_filter:
  assumes "keyed m" "map_get m k = Some r"
  shows "filter (\<lambda>r. ag_grantNumber r = k) (map_values m) = [r]"
  using assms
proof (induction m)
  case Nil
  then show ?case by (simp add: map_get_def)
next
  case (Cons a m)
  obtain k' v' where a: "a = (k', v')" by (cases a)
  from Cons.prems have kv: "ag_grantNumber v' = k'" and km: "keyed m" and nin: "k' \<notin> fst ` set m"
    by (auto simp: keyed_def a)
  show ?case
  proof (cases "k' = k")
    case True
    with Cons.prems a have r: "v' = r" by (simp add: map_get_def)
    have "\<forall>x\<in>set m. ag_grantNumber (snd x) \<noteq> k"
    proof
      fix x assume x: "x \<in> set m"
      with km have "ag_grantNumber (snd x) = fst x" by (simp add: keyed_def)
      moreover from x nin have "fst x \<noteq> k'" by auto
      ultimately show "ag_grantNumber (snd x) \<noteq> k" using True by simp
    qed
    then have "filter (\<lambda>r. ag_grantNumber r = k) (map_values m) = []"
      by (auto simp: map_values_def filter_empty_conv)
    with True kv r a show ?thesis by (simp add: map_values_def)
  next
    case False
    with Cons.prems a have "map_get m k = Some r" by (simp add: map_get_def)
    from Cons.IH[OF km this] False kv a show ?thesis by (simp add: map_values_def)
  qed
qed

text \<open>A distinct list of records enters the lookup unchanged.\<close>

lemma foldl_set_fresh:
  "distinct (map fst m @ map ag_grantNumber xs) \<Longrightarrow>
   foldl (\<lambda>m (k, v). map_set m k v) m (map (\<lambda>ag. (ag_grantNumber ag, ag)) xs)
   = m @ map (\<lambda>ag. (ag_grantNumber ag, ag)) xs"
proof (induction xs arbitrary: m)
  case Nil
  then show ?case by simp
next
  case (Cons x xs)
  from Cons.prems have fresh: "ag_grantNumber x \<notin> fst ` set m" by auto
  have set_fresh: "map_set m (ag_grantNumber x) x = m @ [(ag_grantNumber x, x)]"
    using fresh by (induction m) auto
  from Cons.prems have "distinct (map fst (m @ [(ag_grantNumber x, x)]) @ map ag_grantNumber xs)"
    by auto
  from Cons.IH[OF this] show ?case by (simp add: set_fresh)
qed

lemma existingMap_distinct:
  "distinct (map ag_grantNumber existing) \<Longrightarrow>
   existingMap existing = map (\<lambda>ag. (ag_grantNumber ag, ag)) existing"
  using foldl_set_fresh[of "[]" existing] by (simp add: existingMap_def newMap_def)

text \<open>
  The lookup built from the data set holds, under a grant number, the last record of the
  data set with that number.
\<close>

lemma map_get_foldl_set_other:
  "\<forall>x\<in>set zs. ag_grantNumber x \<noteq> k \<Longrightarrow>
   map_get (foldl (\<lambda>m (k, v). map_set m k v) m (map (\<lambda>ag. (ag_grantNumber ag, ag)) zs)) k
   = map_get m k"
  by (induction zs arbitrary: m) (auto simp: map_get_map_set)

lemma map_get_existingMap:
  assumes "\<forall>x\<in>set after. ag_grantNumber x \<noteq> ag_grantNumber e"
  shows "map_get (existingMap (before @ e # after)) (ag_grantNumber e) = Some e"
  using assms
  by (simp add: existingMap_def newMap_def map_get_foldl_set_other map_get_map_set)

lemma values_existingMap:
  "distinct (map ag_grantNumber existing) \<Longrightarrow> map_values (existingMap existing) = existing"
  using foldl_set_fresh[of "[]" existing]
  by (simp add: existingMap_def newMap_def map_values_def comp_def)

subsection \<open>The two merge loops\<close>

lemma mergeStep_eq: "mergeStep ops m ag = map_set m (ag_grantNumber ag) (detect ops m ag)"
  by (auto simp: mergeStep_def detect_def Let_def split: option.splits)

lemma detect_key: "ag_grantNumber (detect ops m ag) = ag_grantNumber ag"
  by (simp add: detect_def split: option.splits)

lemma detect_fields:
  "detect ops m ag = ag \<lparr> ag_previousAwardValue := ag_previousAwardValue (detect ops m ag),
                      ag_previousAwardStatus := ag_previousAwardStatus (detect ops m ag) \<rparr>"
  by (simp add: detect_def split: option.splits)

lemma keyed_mergeStep: "keyed m \<Longrightarrow> keyed (mergeStep ops m ag)"
  by (simp add: mergeStep_eq keyed_map_set detect_key)

lemma keyed_foldl_mergeStep: "keyed m \<Longrightarrow> keyed (foldl (mergeStep ops) m xs)"
  by (induction xs arbitrary: m) (auto simp: keyed_mergeStep)

lemma map_get_mergeStep:
  "map_get (mergeStep ops m ag) k = (if k = ag_grantNumber ag then Some (detect ops m ag) else map_get m k)"
  by (simp add: mergeStep_eq map_get_map_set)

lemma map_get_foldl_other:
  "\<forall>y\<in>set ys. ag_grantNumber y \<noteq> k \<Longrightarrow> map_get (foldl (mergeStep ops) m ys) k = map_get m k"
  by (induction ys arbitrary: m) (auto simp: map_get_mergeStep)

lemma merged_record:
  assumes "\<forall>y\<in>set ys. ag_grantNumber y \<noteq> ag_grantNumber ag"
  shows "filter (\<lambda>r. ag_grantNumber r = ag_grantNumber ag)
           (mergeActiveGrants ops existing (xs @ ag # ys))
         = [detect ops (foldl (mergeStep ops) (existingMap existing) xs) ag]"
proof -
  let ?m = "foldl (mergeStep ops) (existingMap existing) xs"
  have "map_get (foldl (mergeStep ops) (mergeStep ops ?m ag) ys) (ag_grantNumber ag) = Some (detect ops ?m ag)"
    using assms by (simp add: map_get_foldl_other map_get_mergeStep)
  moreover have "keyed (foldl (mergeStep ops) (existingMap existing) (xs @ ag # ys))"
    by (rule keyed_foldl_mergeStep) (rule keyed_existingMap)
  ultimately show ?thesis
    unfolding mergeActiveGrants_def by (intro keyed_filter) simp_all
qed

lemma distinct_mergeActiveGrants:
  "distinct (map ag_grantNumber (mergeActiveGrants ops existing imported))"
  unfolding mergeActiveGrants_def
  by (intro keyed_distinct keyed_foldl_mergeStep keyed_existingMap)

lemma keyed_foldl_apply:
  "keyed m \<Longrightarrow> keyed (foldl (\<lambda>m ag. map_set m (ag_grantNumber ag) ag) m xs)"
  by (induction xs arbitrary: m) (auto simp: keyed_map_set)

lemma map_get_foldl_apply_other:
  "\<forall>y\<in>set ys. ag_grantNumber y \<noteq> k \<Longrightarrow>
   map_get (foldl (\<lambda>m ag. map_set m (ag_grantNumber ag) ag) m ys) k = map_get m k"
  by (induction ys arbitrary: m) (auto simp: map_get_map_set)

lemma applied_record:
  assumes "\<forall>y\<in>set ys. ag_grantNumber y \<noteq> ag_grantNumber ag"
  shows "filter (\<lambda>r. ag_grantNumber r = ag_grantNumber ag)
           (applyActiveGrants existing (xs @ ag # ys)) = [ag]"
proof -
  let ?step = "\<lambda>m ag. map_set m (ag_grantNumber ag) ag"
  let ?m = "foldl ?step (existingMap existing) xs"
  have "map_get (foldl ?step (?step ?m ag) ys) (ag_grantNumber ag) = Some ag"
    using assms by (simp add: map_get_foldl_apply_other map_get_map_set)
  moreover have "keyed (foldl ?step (existingMap existing) (xs @ ag # ys))"
    by (rule keyed_foldl_apply) (rule keyed_existingMap)
  ultimately show ?thesis
    unfolding applyActiveGrants_def by (intro keyed_filter) simp_all
qed

lemma distinct_applyActiveGrants:
  "distinct (map ag_grantNumber (applyActiveGrants existing edited))"
  unfolding applyActiveGrants_def
  by (intro keyed_distinct keyed_foldl_apply keyed_existingMap)

lemma mergeData_activeGrants:
  assumes "mergeData ops d imported = Inr md" and "activeGrants d = Some existing"
  shows "activeGrants md =
           Some (if orEmpty (activeGrants imported) = [] then existing
                 else mergeActiveGrants ops existing (orEmpty (activeGrants imported)))"
  using assms
  by (auto simp: mergeData_def orEmpty_def split: if_splits option.splits sum.splits)

lemma applyChanges_activeGrants:
  assumes "applyChanges ops d edited = Inr nd" and "activeGrants d = Some existing"
  shows "activeGrants nd =
           Some (if orEmpty (activeGrants edited) = [] then existing
                 else applyActiveGrants existing (orEmpty (activeGrants edited)))"
  using assms
  by (auto simp: applyChanges_def orEmpty_def split: if_splits option.splits sum.splits)

subsection \<open>Evaluation of the sample data\<close>

lemmas vocab_defs = js_def w_grant_def w_active_def w_paper_def w_publication_def w_zizhu_def
  w_jinxingzhong_def w_xiangmu_def w_juti_xiangmu_def w_wenxian_def w_lunwen_def
  toLowerCase_def lowerUnit_def

lemmas whole_defs = wholeNumbers_def litWhole_def numberOfSampleString_def orZero_def

lemmas sample_defs = agDisc_def agDiscClosed_def agDiscReopened_def agDiscCarrying_def
  agTran_def agTranRaised_def

lemma status_samples:
  "js ''Active'' \<noteq> js ''Closed''" "js ''Closed'' \<noteq> js ''Active''"
  by (simp_all add: js_def)

lemma number_samples:
  "js ''TRAN1-100'' \<noteq> js ''DISC1-999''" "js ''DISC1-999'' \<noteq> js ''TRAN1-100''"
  by (simp_all add: js_def)

subsection \<open>Summaries\<close>

lemma appendImported_Some:
  "appendImported (Some xs) new = Inr (Some (xs @ orEmpty new))"
  by (simp add: appendImported_def orEmpty_def split: option.splits)

lemma mergeData_summary:
  assumes "mergeData ops d imported = Inr md" and "grants d = Some gs0" and "papers d = Some ps0"
    and "summary d = Some s0"
  shows "grants md = Some (gs0 @ orEmpty (grants imported))"
    and "papers md = Some (ps0 @ orEmpty (papers imported))"
    and "summary md = Some (s0 \<lparr>
           totalGrants :=
             num_add ops (totalGrants s0) (num_lit ops (length (orEmpty (grants imported)))),
           totalPapers :=
             num_add ops (totalPapers s0) (num_lit ops (length (orEmpty (papers imported)))),
           totalProjects :=
             num_add ops (totalProjects s0)
               (orZero ops (sumOver ops g_totalAwards (orEmpty (grants imported)))),
           totalAmount :=
             num_add ops (totalAmount s0)
               (orZero ops (sumOver ops g_awardValue (orEmpty (grants imported)))) \<rparr>)"
  using assms
  by (auto simp: mergeData_def appendImported_Some split: sum.splits if_splits option.splits)

lemmas data_defs = sampleData_def sampleImport_def emptyData_def staleData_def zeroSummary_def
  grantDisc_def

lemma mergeData_sample: "\<exists>md. mergeData wholeNumbers sampleData sampleImport = Inr md"
  by (simp add: mergeData_def appendImported_def data_defs orEmpty_def)

lemma applyChanges_sample: "\<exists>nd. applyChanges wholeNumbers sampleData sampleImport = Inr nd"
  by (simp add: applyChanges_def orArray_def data_defs orEmpty_def)

subsection \<open>What the importer returns\<close>




subsection \<open>The state under the operations\<close>


lemma saveData_fields:
  "fst (saveData writable nd st) = (if writable then None else Some QuotaExceeded)"
  "data (snd (saveData writable nd st)) = Some nd"
  "stored (snd (saveData writable nd st)) = (if writable then Some nd else stored st)"
  "changes (snd (saveData writable nd st)) = changes st"
  "error (snd (saveData writable nd st)) = error st"
  by (simp_all add: saveData_def)




subsection \<open>Decimal digits\<close>

lemma digits_small: "n < 10 \<Longrightarrow> digits n = [48 + n]"
  by (simp add: digits.simps)

lemma digits_large: "\<not> n < 10 \<Longrightarrow> digits n = digits (n div 10) @ [48 + n mod 10]"
  by (subst digits.simps) simp

lemma digits_not_Nil: "digits n \<noteq> []"
  by (cases "n < 10") (simp_all add: digits_small digits_large)





lemma String_int_not_Nil: "String_int i \<noteq> []"
  by (simp add: String_int_def digits_not_Nil)



subsection \<open>Cells\<close>

lemma StringOr_empty:
  assumes "\<And>n. \<not> num_falsy ops n \<Longrightarrow> num_str ops n \<noteq> []"
  shows "StringOr ops c [] \<noteq> [] \<longleftrightarrow> truthy ops c"
  using assms by (cases c) (auto simp: StringOr_def orElse_def js_def)

lemma truthy_filled: "truthy ops (at r i) \<Longrightarrow> someCellFilled r"
  by (auto simp: at_def someCellFilled_def list_ex_iff split: if_splits intro!: bexI[of _ "r ! i"])

lemma filter_editorRows:
  "filter (\<lambda>r. truthy ops (at r i)) (editorRows jsonData)
   = filter (\<lambda>r. truthy ops (at r i)) (drop 1 jsonData)"
  unfolding editorRows_def filter_filter
  by (rule filter_cong) (auto dest: truthy_filled)

text \<open>
  The editor keeps exactly the rows whose primary cell (the grant type in column 1, the
  grant number or the title in column 0) is truthy, given that \<open>String\<close> of a number that
  is not falsy is not empty.
\<close>

lemma editor_rows_kept:
  assumes "\<And>n. \<not> num_falsy ops n \<Longrightarrow> num_str ops n \<noteq> []"
  shows "editorGrantRows ops (editorRows jsonData)
           = map (\<lambda>(i, r). grantOfRow ops i r)
               (filter (\<lambda>(i, r). truthy ops (at r 1)) (enumerate 0 (editorRows jsonData)))"
    and "editorActiveGrantRows ops (editorRows jsonData)
           = map (editorActiveGrantOfRow ops)
               (filter (\<lambda>r. truthy ops (at r 0)) (drop 1 jsonData))"
    and "editorPaperRows ops rx (editorRows jsonData)
           = map (editorPaperOfRow ops rx)
               (filter (\<lambda>r. truthy ops (at r 0)) (drop 1 jsonData))"
proof -
  note e = StringOr_empty[OF assms]
  show "editorGrantRows ops (editorRows jsonData)
           = map (\<lambda>(i, r). grantOfRow ops i r)
               (filter (\<lambda>(i, r). truthy ops (at r 1)) (enumerate 0 (editorRows jsonData)))"
    unfolding editorGrantRows_def mapIdx_def filter_map
    by (simp add: comp_def case_prod_unfold grantOfRow_def e)
  have "editorActiveGrantRows ops rows
     = map (editorActiveGrantOfRow ops) (filter (\<lambda>r. truthy ops (at r 0)) rows)" for rows
    unfolding editorActiveGrantRows_def filter_map
    by (simp add: comp_def editorActiveGrantOfRow_def e)
  then show "editorActiveGrantRows ops (editorRows jsonData)
           = map (editorActiveGrantOfRow ops)
               (filter (\<lambda>r. truthy ops (at r 0)) (drop 1 jsonData))"
    by (simp only: filter_editorRows)
  have "editorPaperRows ops rx rows
     = map (editorPaperOfRow ops rx) (filter (\<lambda>r. truthy ops (at r 0)) rows)" for rows
    unfolding editorPaperRows_def filter_map
    by (simp add: comp_def editorPaperOfRow_def paperOfRow_def Let_def e)
  then show "editorPaperRows ops rx (editorRows jsonData)
           = map (editorPaperOfRow ops rx)
               (filter (\<lambda>r. truthy ops (at r 0)) (drop 1 jsonData))"
    by (simp only: filter_editorRows)
qed

subsection \<open>The merged record of an existing grant number\<close>

lemmas merge_eval = mergeActiveGrants_def mergeStep_def existingMap_def newMap_def map_get_def
  map_values_def

text \<open>
  Let \<open>e\<close> be the last record of the data set with the grant number of the imported record
  \<open>ag\<close>, and let no other imported record have that number. Then the merged array has
  exactly one record with that number: \<open>ag\<close>, with the two previous-value fields set from
  \<open>e\<close> where \<open>e\<close> differs.
\<close>

lemma merged_record_existing:
  assumes "existing = before @ e # after"
      and "ag_grantNumber e = ag_grantNumber ag"
      and "\<forall>x\<in>set after. ag_grantNumber x \<noteq> ag_grantNumber ag"
      and "\<forall>x\<in>set xs. ag_grantNumber x \<noteq> ag_grantNumber ag"
      and "\<forall>y\<in>set ys. ag_grantNumber y \<noteq> ag_grantNumber ag"
  shows "filter (\<lambda>r. ag_grantNumber r = ag_grantNumber ag)
           (mergeActiveGrants ops existing (xs @ ag # ys))
         = [ag \<lparr> ag_previousAwardValue :=
                   (if num_ne ops (ag_awardValue e) (ag_awardValue ag)
                    then Some (ag_awardValue e) else ag_previousAwardValue ag),
                 ag_previousAwardStatus :=
                   (if ag_awardStatus e \<noteq> ag_awardStatus ag
                    then Some (ag_awardStatus e) else ag_previousAwardStatus ag) \<rparr>]"
proof -
  have "map_get (existingMap existing) (ag_grantNumber e) = Some e"
    unfolding assms(1) using assms(2,3) by (intro map_get_existingMap) simp
  then have "map_get (foldl (mergeStep ops) (existingMap existing) xs) (ag_grantNumber ag) = Some e"
    using assms(2,4) by (simp add: map_get_foldl_other)
  then show ?thesis
    using merged_record[OF assms(5), of ops existing xs] by (simp add: detect_def)
qed

section \<open>The claims\<close>

text \<open>
  C1 (the importer's reading of sheet names). The claim: a sheet whose name contains both
  "grant" and "active" is an ActiveGrant sheet, never a Grant sheet. \<open>parseExcelFile\<close> tests
  "grant" first: the sheet named "ActiveGrants", the name that the template download of the
  data-management section gives its active-grant sheet, takes the Grant branch, and its
  row comes back as a grant type whose program type is the grant number, with no active
  grant. The editor's \<open>detectSheetType\<close> tests "active" first and answers ActiveGrant on
  the same name; the editor reads the row as an active grant.
\<close>

theorem sheet_ActiveGrants_read_as_Grants:
  "parseExcelFile_sheetType (js ''ActiveGrants'') = Grants
   \<and> detectSheetType (js ''ActiveGrants'') = ActiveGrants
   \<and> activeGrants (parseExcelFile wholeNumbers rxNone [activeGrantsSheet]
        :: (whole, unit) CIRMData) = Some []
   \<and> map g_programType
        (orEmpty (grants (parseExcelFile wholeNumbers rxNone [activeGrantsSheet]
           :: (whole, unit) CIRMData)))
       = [js ''DISC1-999'']
   \<and> map ag_grantNumber
        (orEmpty (activeGrants (processEditorFile wholeNumbers rxNone [activeGrantsSheet]
           :: (whole, unit) CIRMData)))
       = [js ''DISC1-999'']"
proof -
  have 1: "parseExcelFile_sheetType (js ''ActiveGrants'') = Grants"
    by (simp add: parseExcelFile_sheetType_def vocab_defs)
  have 2: "detectSheetType (js ''ActiveGrants'') = ActiveGrants"
    by (simp add: detectSheetType_def vocab_defs)
  have 3: "(parseExcelFile wholeNumbers rxNone [activeGrantsSheet] :: (whole, unit) CIRMData)
           = emptyParse \<lparr> grants := Some (parseGrantRows wholeNumbers (snd activeGrantsSheet)) \<rparr>"
    using 1 by (simp add: parseExcelFile_def parseExcelSheet_def activeGrantsSheet_def
        emptyParse_def orEmpty_def)
  have 4: "map g_programType (parseGrantRows wholeNumbers (snd activeGrantsSheet))
           = [js ''DISC1-999'']"
    by (simp add: parseGrantRows_def activeGrantsSheet_def firstCellPresent_def at_def
        mapIdx_def grantOfRow_def StringOr_def orElse_def js_def)
  have 5: "(processEditorFile wholeNumbers rxNone [activeGrantsSheet] :: (whole, unit) CIRMData)
           = emptyParse \<lparr> activeGrants :=
               Some (editorActiveGrantRows wholeNumbers (editorRows (snd activeGrantsSheet))) \<rparr>"
    using 2 by (simp add: processEditorFile_def processEditorSheet_def activeGrantsSheet_def
        emptyParse_def orEmpty_def)
  have 6: "map ag_grantNumber
             (editorActiveGrantRows wholeNumbers (editorRows (snd activeGrantsSheet)))
           = [js ''DISC1-999'']"
    by (simp add: editorActiveGrantRows_def editorRows_def someCellFilled_def
        activeGrantsSheet_def at_def editorActiveGrantOfRow_def StringOr_def orElse_def js_def)
  show ?thesis
    using 1 2 4 6 by (simp add: 3 5 emptyParse_def orEmpty_def)
qed

text \<open>
  C2 (previous award value). The claim: for an imported record whose grant number exists,
  \<open>previousAwardValue\<close> is the existing award value if that differs from the incoming one,
  and is left unset if the two are equal. \<open>importData\<close> assigns the field when the values
  differ and does not touch it otherwise: an imported record of a JSON file that carries
  \<open>previousAwardValue = 77\<close> and the award value of the existing record keeps the 77. And
  the existing record is the one that the lookup holds when the imported record is
  reached: when the import has the same grant number twice, first with 1200000 and then
  with the 1000000 of the data set, the merged record has \<open>previousAwardValue = 1200000\<close>,
  although its award value is that of the record of the data set.
\<close>

theorem importData_previousAwardValue_counterexample:
  "map ag_previousAwardValue (mergeActiveGrants wholeNumbers [agDisc] [agDiscCarrying])
     = [Some (N 77)]
   \<and> ag_awardValue agDisc = N 1000000
   \<and> ag_awardValue agDiscCarrying = N 1000000
   \<and> map ag_previousAwardValue (mergeActiveGrants wholeNumbers [agDisc] [agDiscClosed, agDisc])
     = [Some (N 1200000)]"
  using status_samples
  by (simp add: merge_eval sample_defs whole_defs)

text \<open>
  C2, as amended. Let the data set be \<open>before @ e # after\<close>, with \<open>e\<close> the last of its
  records with the grant number of the imported record \<open>ag\<close>, and let the imported records
  be \<open>xs @ ag # ys\<close>, with \<open>ag\<close> the only one of them with that number. Then the array that
  \<open>importData\<close> merges has exactly one record with that grant number; its
  \<open>previousAwardValue\<close> is the award value of \<open>e\<close> if that differs (\<open>!==\<close>) from the
  incoming award value, and is what the incoming record carries if the values are equal.
  A record that the importer reads from a sheet carries none.
\<close>

theorem importData_previousAwardValue:
  assumes "existing = before @ e # after"
      and "ag_grantNumber e = ag_grantNumber ag"
      and "\<forall>x\<in>set after. ag_grantNumber x \<noteq> ag_grantNumber ag"
      and "\<forall>x\<in>set xs. ag_grantNumber x \<noteq> ag_grantNumber ag"
      and "\<forall>y\<in>set ys. ag_grantNumber y \<noteq> ag_grantNumber ag"
  shows "(\<exists>r. filter (\<lambda>r. ag_grantNumber r = ag_grantNumber ag)
                (mergeActiveGrants ops existing (xs @ ag # ys)) = [r]
           \<and> ag_previousAwardValue r =
               (if num_ne ops (ag_awardValue e) (ag_awardValue ag) then Some (ag_awardValue e)
                else ag_previousAwardValue ag))
         \<and> ag_previousAwardValue (activeGrantOfRow ops row) = None"
  using merged_record_existing[OF assms, of ops] by (simp add: activeGrantOfRow_previous)

theorem importData_previousAwardValue_witness:
  "[agTran, agDisc] = [agTran] @ agDisc # []
   \<and> ag_grantNumber agDisc = ag_grantNumber agDiscClosed
   \<and> (\<exists>r. filter (\<lambda>r. ag_grantNumber r = ag_grantNumber agDiscClosed)
              (mergeActiveGrants wholeNumbers [agTran, agDisc] ([agTranRaised] @ agDiscClosed # []))
            = [r]
         \<and> ag_previousAwardValue r = Some (N 1000000))
   \<and> (\<exists>r. filter (\<lambda>r. ag_grantNumber r = ag_grantNumber agDisc)
              (mergeActiveGrants wholeNumbers [agTran, agDisc] ([agTranRaised] @ agDisc # []))
            = [r]
         \<and> ag_previousAwardValue r = None)"
proof -
  have a: "[agTran, agDisc] = [agTran] @ agDisc # []" by simp
  have b: "ag_grantNumber agDisc = ag_grantNumber agDiscClosed"
    "ag_grantNumber agDisc = ag_grantNumber agDisc"
    by (simp_all add: sample_defs)
  have c: "\<forall>x\<in>set []. ag_grantNumber x \<noteq> ag_grantNumber agDiscClosed"
    "\<forall>x\<in>set []. ag_grantNumber x \<noteq> ag_grantNumber agDisc"
    by simp_all
  have d: "\<forall>x\<in>set [agTranRaised]. ag_grantNumber x \<noteq> ag_grantNumber agDiscClosed"
    "\<forall>x\<in>set [agTranRaised]. ag_grantNumber x \<noteq> ag_grantNumber agDisc"
    using number_samples by (simp_all add: sample_defs)
  have v: "num_ne wholeNumbers (ag_awardValue agDisc) (ag_awardValue agDiscClosed)"
    "ag_awardValue agDisc = N 1000000"
    "\<not> num_ne wholeNumbers (ag_awardValue agDisc) (ag_awardValue agDisc)"
    "ag_previousAwardValue agDisc = None"
    by (simp_all add: sample_defs whole_defs)
  from importData_previousAwardValue[OF a b(1) c(1) d(1) c(1), of wholeNumbers, THEN conjunct1] v
  have 1: "\<exists>r. filter (\<lambda>r. ag_grantNumber r = ag_grantNumber agDiscClosed)
              (mergeActiveGrants wholeNumbers [agTran, agDisc] ([agTranRaised] @ agDiscClosed # []))
            = [r]
         \<and> ag_previousAwardValue r = Some (N 1000000)"
    by simp
  from importData_previousAwardValue[OF a b(2) c(2) d(2) c(2), of wholeNumbers, THEN conjunct1] v
  have 2: "\<exists>r. filter (\<lambda>r. ag_grantNumber r = ag_grantNumber agDisc)
              (mergeActiveGrants wholeNumbers [agTran, agDisc] ([agTranRaised] @ agDisc # []))
            = [r]
         \<and> ag_previousAwardValue r = None"
    by simp
  from a b(1) 1 2 show ?thesis by (intro conjI)
qed

text \<open>
  C3 (previous award status). The claim: \<open>previousAwardStatus\<close> is set exactly when the
  existing status was not "Closed" and the incoming status is "Closed". \<open>importData\<close> sets
  it on every change of status: an existing "Closed" record re-imported as "Active" gets
  \<open>previousAwardStatus = "Closed"\<close>. And the existing record is the one that the lookup
  holds when the imported record is reached: when the import has the grant number of a
  "Closed" record twice, first as "Active" and then as "Closed", the merged record has
  \<open>previousAwardStatus = "Active"\<close>.
\<close>

theorem importData_previousAwardStatus_counterexample:
  "map ag_previousAwardStatus (mergeActiveGrants wholeNumbers [agDiscClosed] [agDiscReopened])
   = [Some (js ''Closed'')]
   \<and> ag_awardStatus agDiscClosed = js ''Closed''
   \<and> ag_awardStatus agDiscReopened = js ''Active''
   \<and> map ag_previousAwardStatus
        (mergeActiveGrants wholeNumbers [agDiscClosed] [agDiscReopened, agDiscClosed])
   = [Some (js ''Active'')]"
  using status_samples
  by (simp add: merge_eval sample_defs whole_defs)

text \<open>
  C3, as amended. With the data set \<open>before @ e # after\<close> and the imported records
  \<open>xs @ ag # ys\<close> as in C2 (\<open>e\<close> the last record of the data set with the grant number of
  \<open>ag\<close>, \<open>ag\<close> the only imported record with it), the merged record's
  \<open>previousAwardStatus\<close> is the status of \<open>e\<close> exactly when that differs from the incoming
  status, whatever the two statuses are; when the statuses are equal (a
  "Closed"-to-"Closed" import among them) the field is what the incoming record carries.
  A record that the importer reads from a sheet carries none.
\<close>

theorem importData_previousAwardStatus:
  assumes "existing = before @ e # after"
      and "ag_grantNumber e = ag_grantNumber ag"
      and "\<forall>x\<in>set after. ag_grantNumber x \<noteq> ag_grantNumber ag"
      and "\<forall>x\<in>set xs. ag_grantNumber x \<noteq> ag_grantNumber ag"
      and "\<forall>y\<in>set ys. ag_grantNumber y \<noteq> ag_grantNumber ag"
  shows "(\<exists>r. filter (\<lambda>r. ag_grantNumber r = ag_grantNumber ag)
                (mergeActiveGrants ops existing (xs @ ag # ys)) = [r]
           \<and> ag_previousAwardStatus r =
               (if ag_awardStatus e \<noteq> ag_awardStatus ag then Some (ag_awardStatus e)
                else ag_previousAwardStatus ag))
         \<and> ag_previousAwardStatus (activeGrantOfRow ops row) = None"
  using merged_record_existing[OF assms, of ops] by (simp add: activeGrantOfRow_previous)

theorem importData_previousAwardStatus_witness:
  "[agTran, agDiscClosed] = [agTran] @ agDiscClosed # []
   \<and> ag_grantNumber agDiscClosed = ag_grantNumber agDiscReopened
   \<and> (\<exists>r. filter (\<lambda>r. ag_grantNumber r = ag_grantNumber agDiscReopened)
              (mergeActiveGrants wholeNumbers [agTran, agDiscClosed]
                 ([agTranRaised] @ agDiscReopened # []))
            = [r]
         \<and> ag_previousAwardStatus r = Some (js ''Closed''))
   \<and> (\<exists>r. filter (\<lambda>r. ag_grantNumber r = ag_grantNumber agDiscClosed)
              (mergeActiveGrants wholeNumbers [agTran, agDiscClosed]
                 ([agTranRaised] @ agDiscClosed # []))
            = [r]
         \<and> ag_previousAwardStatus r = None)"
proof -
  have a: "[agTran, agDiscClosed] = [agTran] @ agDiscClosed # []" by simp
  have b: "ag_grantNumber agDiscClosed = ag_grantNumber agDiscReopened"
    "ag_grantNumber agDiscClosed = ag_grantNumber agDiscClosed"
    by (simp_all add: sample_defs)
  have c: "\<forall>x\<in>set []. ag_grantNumber x \<noteq> ag_grantNumber agDiscReopened"
    "\<forall>x\<in>set []. ag_grantNumber x \<noteq> ag_grantNumber agDiscClosed"
    by simp_all
  have d: "\<forall>x\<in>set [agTranRaised]. ag_grantNumber x \<noteq> ag_grantNumber agDiscReopened"
    "\<forall>x\<in>set [agTranRaised]. ag_grantNumber x \<noteq> ag_grantNumber agDiscClosed"
    using number_samples by (simp_all add: sample_defs)
  have v: "ag_awardStatus agDiscClosed \<noteq> ag_awardStatus agDiscReopened"
    "ag_awardStatus agDiscClosed = js ''Closed''"
    "ag_previousAwardStatus agDiscClosed = None"
    using status_samples by (simp_all add: sample_defs)
  from importData_previousAwardStatus[OF a b(1) c(1) d(1) c(1), of wholeNumbers, THEN conjunct1] v
  have 1: "\<exists>r. filter (\<lambda>r. ag_grantNumber r = ag_grantNumber agDiscReopened)
              (mergeActiveGrants wholeNumbers [agTran, agDiscClosed]
                 ([agTranRaised] @ agDiscReopened # []))
            = [r]
         \<and> ag_previousAwardStatus r = Some (js ''Closed'')"
    by simp
  from importData_previousAwardStatus[OF a b(2) c(2) d(2) c(2), of wholeNumbers, THEN conjunct1] v
  have 2: "\<exists>r. filter (\<lambda>r. ag_grantNumber r = ag_grantNumber agDiscClosed)
              (mergeActiveGrants wholeNumbers [agTran, agDiscClosed]
                 ([agTranRaised] @ agDiscClosed # []))
            = [r]
         \<and> ag_previousAwardStatus r = None"
    by simp
  from a b(1) 1 2 show ?thesis by (intro conjI)
qed

text \<open>
  C4 (summary after a merge). The claim: after every merge the summary equals the formulas
  evaluated over the merged arrays and is never an adjustment of the previous summary.
  \<open>importData\<close> adds the imported counts to the previous summary and leaves
  \<open>activeProjects\<close> as it was. On the empty data set with a zero summary, importing one
  active grant type with 3 awards leaves \<open>activeProjects = 0\<close> where the formula gives 3; on
  a data set whose summary says 5 grant types for an empty array, the same import gives
  \<open>totalGrants = 6\<close> for an array of length 1.
\<close>

theorem summary_after_import_counterexample:
  "mergedGrants wholeNumbers emptyData sampleImport = Some [grantDisc]
   \<and> map_option activeProjects (mergedSummary wholeNumbers emptyData sampleImport) = Some (N 0)
   \<and> sumOver wholeNumbers g_totalAwards (filter notClosed [grantDisc]) = N 3
   \<and> mergedGrants wholeNumbers staleData sampleImport = Some [grantDisc]
   \<and> map_option totalGrants (mergedSummary wholeNumbers staleData sampleImport) = Some (N 6)
   \<and> num_lit wholeNumbers (length [grantDisc]) = N 1"
  using status_samples
  by (simp add: mergedGrants_def mergedSummary_def mergeData_def appendImported_def data_defs
      orEmpty_def notClosed_def sumOver_def whole_defs)

text \<open>
  C4, as amended. The sums are those of the runtime, taken from the left starting at 0 in
  the order of the array (\<open>sumOver\<close>), whatever its addition is. The data set that the
  editor's \<open>handleApplyChanges\<close> builds has a summary whose \<open>totalGrants\<close> and
  \<open>totalPapers\<close> are the lengths of its own grants and papers, and whose
  \<open>totalProjects\<close>, \<open>totalAmount\<close> and \<open>activeProjects\<close> are the sums of \<open>totalAwards\<close>,
  of \<open>awardValue\<close>, and of \<open>totalAwards\<close> over the grants that are not "Closed", a falsy
  field counting as 0. The data set that \<open>importData\<close> builds has the previous arrays with
  the imported ones appended, and a summary whose \<open>totalGrants\<close>, \<open>totalPapers\<close>,
  \<open>totalProjects\<close> and \<open>totalAmount\<close> are the previous values plus the counts of the
  imported records and plus the sums over the imported grants (a falsy sum counting as 0).
\<close>

theorem summary_after_merge:
  "(applyChanges ops d edited = Inr nd \<longrightarrow>
      (\<exists>gs ps s. grants nd = Some gs \<and> papers nd = Some ps \<and> summary nd = Some s
         \<and> totalGrants s = num_lit ops (length gs)
         \<and> totalPapers s = num_lit ops (length ps)
         \<and> totalProjects s = sumOver ops (\<lambda>g. orZero ops (g_totalAwards g)) gs
         \<and> totalAmount s = sumOver ops (\<lambda>g. orZero ops (g_awardValue g)) gs
         \<and> activeProjects s
             = sumOver ops (\<lambda>g. orZero ops (g_totalAwards g)) (filter notClosed gs)))
   \<and> (mergeData ops d imported = Inr md \<and> grants d = Some gs0 \<and> papers d = Some ps0
        \<and> summary d = Some s0 \<longrightarrow>
      (\<exists>gs ps s. grants md = Some gs \<and> papers md = Some ps \<and> summary md = Some s
         \<and> gs = gs0 @ orEmpty (grants imported)
         \<and> ps = ps0 @ orEmpty (papers imported)
         \<and> totalGrants s
             = num_add ops (totalGrants s0) (num_lit ops (length (orEmpty (grants imported))))
         \<and> totalPapers s
             = num_add ops (totalPapers s0) (num_lit ops (length (orEmpty (papers imported))))
         \<and> totalProjects s
             = num_add ops (totalProjects s0)
                 (orZero ops (sumOver ops g_totalAwards (orEmpty (grants imported))))
         \<and> totalAmount s
             = num_add ops (totalAmount s0)
                 (orZero ops (sumOver ops g_awardValue (orEmpty (grants imported))))))"
proof -
  have a: "\<exists>gs ps s. grants nd = Some gs \<and> papers nd = Some ps \<and> summary nd = Some s
         \<and> totalGrants s = num_lit ops (length gs)
         \<and> totalPapers s = num_lit ops (length ps)
         \<and> totalProjects s = sumOver ops (\<lambda>g. orZero ops (g_totalAwards g)) gs
         \<and> totalAmount s = sumOver ops (\<lambda>g. orZero ops (g_awardValue g)) gs
         \<and> activeProjects s
             = sumOver ops (\<lambda>g. orZero ops (g_totalAwards g)) (filter notClosed gs)"
    if "applyChanges ops d edited = Inr nd"
    using that
    by (auto simp: applyChanges_def split: sum.splits if_splits option.splits)
  have b: "\<exists>gs ps s. grants md = Some gs \<and> papers md = Some ps \<and> summary md = Some s
         \<and> gs = gs0 @ orEmpty (grants imported)
         \<and> ps = ps0 @ orEmpty (papers imported)
         \<and> totalGrants s
             = num_add ops (totalGrants s0) (num_lit ops (length (orEmpty (grants imported))))
         \<and> totalPapers s
             = num_add ops (totalPapers s0) (num_lit ops (length (orEmpty (papers imported))))
         \<and> totalProjects s
             = num_add ops (totalProjects s0)
                 (orZero ops (sumOver ops g_totalAwards (orEmpty (grants imported))))
         \<and> totalAmount s
             = num_add ops (totalAmount s0)
                 (orZero ops (sumOver ops g_awardValue (orEmpty (grants imported))))"
    if "mergeData ops d imported = Inr md \<and> grants d = Some gs0 \<and> papers d = Some ps0
        \<and> summary d = Some s0"
  proof -
    from that have m: "mergeData ops d imported = Inr md" and g: "grants d = Some gs0"
      and p: "papers d = Some ps0" and s: "summary d = Some s0" by auto
    show ?thesis by (simp add: mergeData_summary[OF m g p s])
  qed
  from a b show ?thesis by blast
qed

theorem summary_after_merge_witness:
  "(\<exists>nd gs ps s. applyChanges wholeNumbers sampleData sampleImport = Inr nd
       \<and> grants nd = Some gs \<and> papers nd = Some ps \<and> summary nd = Some s
       \<and> totalGrants s = num_lit wholeNumbers (length gs)
       \<and> activeProjects s
           = sumOver wholeNumbers (\<lambda>g. orZero wholeNumbers (g_totalAwards g))
               (filter notClosed gs))
   \<and> (\<exists>md gs ps s. mergeData wholeNumbers sampleData sampleImport = Inr md
       \<and> grants md = Some gs \<and> papers md = Some ps \<and> summary md = Some s
       \<and> gs = [grantDisc]
       \<and> totalGrants s = N 1
       \<and> totalProjects s = N 3)"
proof -
  obtain nd where nd: "applyChanges wholeNumbers sampleData sampleImport = Inr nd"
    using applyChanges_sample by blast
  obtain md where md: "mergeData wholeNumbers sampleData sampleImport = Inr md"
    using mergeData_sample by blast
  have h: "grants sampleData = Some []" "papers sampleData = Some []"
    "summary sampleData = Some zeroSummary"
    by (simp_all add: data_defs)
  have e: "orEmpty (grants sampleImport) = [grantDisc]"
    "num_add wholeNumbers (totalGrants zeroSummary) (num_lit wholeNumbers (length [grantDisc]))
       = N 1"
    "num_add wholeNumbers (totalProjects zeroSummary)
       (orZero wholeNumbers (sumOver wholeNumbers g_totalAwards [grantDisc])) = N 3"
    by (simp_all add: data_defs orEmpty_def whole_defs sumOver_def)
  note t = summary_after_merge[of wholeNumbers sampleData sampleImport nd sampleImport md
      "[]" "[]" zeroSummary]
  from mp[OF conjunct1[OF t] nd]
  have 1: "\<exists>nd gs ps s. applyChanges wholeNumbers sampleData sampleImport = Inr nd
       \<and> grants nd = Some gs \<and> papers nd = Some ps \<and> summary nd = Some s
       \<and> totalGrants s = num_lit wholeNumbers (length gs)
       \<and> activeProjects s
           = sumOver wholeNumbers (\<lambda>g. orZero wholeNumbers (g_totalAwards g))
               (filter notClosed gs)"
    using nd by blast
  from md h have "mergeData wholeNumbers sampleData sampleImport = Inr md
      \<and> grants sampleData = Some [] \<and> papers sampleData = Some []
      \<and> summary sampleData = Some zeroSummary"
    by simp
  from mp[OF conjunct2[OF t] this] e
  have 2: "\<exists>md gs ps s. mergeData wholeNumbers sampleData sampleImport = Inr md
       \<and> grants md = Some gs \<and> papers md = Some ps \<and> summary md = Some s
       \<and> gs = [grantDisc]
       \<and> totalGrants s = N 1
       \<and> totalProjects s = N 3"
    using md by auto
  from 1 2 show ?thesis by (intro conjI)
qed









text \<open>
  C8 (rows without their primary field). The claim: a row whose primary text field (the
  grant type, for a Grant row) is missing or blank is discarded, and a row with that field
  is kept. \<open>parseExcelFile\<close> filters the rows of every sheet on their first cell, which
  for a Grant row is the program type. Of the rows "Discovery" (no grant type),
  (no program type) "DISC 1" and "Education" "EDUC 1" of a Grant sheet, the importer keeps
  the first, with an empty grant type, and discards the second, which has its grant type.
  The editor's \<open>processEditorFile\<close> filters the mapped records on \<open>grantType\<close>: on the same
  rows it discards the first and keeps the second.
\<close>

theorem importer_keeps_grant_row_without_grant_type:
  "map g_grantType (parseGrantRows wholeNumbers grantSheetRows) = [[], js ''EDUC 1'']
   \<and> map g_programType (parseGrantRows wholeNumbers grantSheetRows)
       = [js ''Discovery'', js ''Education'']
   \<and> map g_grantType (editorGrantRows wholeNumbers (editorRows grantSheetRows))
       = [js ''DISC 1'', js ''EDUC 1'']
   \<and> map g_programType (editorGrantRows wholeNumbers (editorRows grantSheetRows))
       = [[], js ''Education'']"
proof -
  have i: "map g_grantType (parseGrantRows wholeNumbers grantSheetRows) = [[], js ''EDUC 1'']"
    "map g_programType (parseGrantRows wholeNumbers grantSheetRows)
       = [js ''Discovery'', js ''Education'']"
    by (simp_all add: parseGrantRows_def grantSheetRows_def firstCellPresent_def at_def
        mapIdx_def enumerate_eq_zip grantOfRow_def StringOr_def orElse_def upt_rec)
  have r: "editorRows grantSheetRows
           = [[Str (js ''Discovery'')], [Undefined, Str (js ''DISC 1'')],
              [Str (js ''Education''), Str (js ''EDUC 1'')]]"
    by (simp add: editorRows_def grantSheetRows_def someCellFilled_def js_def)
  have e: "map g_grantType (editorGrantRows wholeNumbers (editorRows grantSheetRows))
       = [js ''DISC 1'', js ''EDUC 1'']"
    "map g_programType (editorGrantRows wholeNumbers (editorRows grantSheetRows))
       = [[], js ''Education'']"
    unfolding r
    by (simp_all add: editorGrantRows_def at_def mapIdx_def enumerate_eq_zip grantOfRow_def
        StringOr_def orElse_def upt_rec js_def)
  from i e show ?thesis by (intro conjI)
qed




text \<open>
  C10 (one active grant per grant number). If the active grants of the data set have
  pairwise different grant numbers, so have the active grants after \<open>importData\<close>'s merge
  and after the editor's \<open>handleApplyChanges\<close>; and for every grant number among the
  incoming records, the one record with that number afterwards is the last incoming record
  with it: as it is in the editor, with the two previous-value fields possibly set in
  \<open>importData\<close>.
\<close>

theorem activeGrants_one_per_grantNumber:
  assumes "activeGrants d = Some existing" and "distinct (map ag_grantNumber existing)"
  shows "(mergeData ops d imported = Inr md \<longrightarrow>
            (\<exists>merged. activeGrants md = Some merged
               \<and> distinct (map ag_grantNumber merged)
               \<and> (\<forall>xs ag ys.
                     orEmpty (activeGrants imported) = xs @ ag # ys
                     \<and> (\<forall>y\<in>set ys. ag_grantNumber y \<noteq> ag_grantNumber ag) \<longrightarrow>
                     (\<exists>pv ps. filter (\<lambda>r. ag_grantNumber r = ag_grantNumber ag) merged
                        = [ag \<lparr> ag_previousAwardValue := pv, ag_previousAwardStatus := ps \<rparr>]))))
       \<and> (applyChanges ops d edited = Inr nd \<longrightarrow>
            (\<exists>merged. activeGrants nd = Some merged
               \<and> distinct (map ag_grantNumber merged)
               \<and> (\<forall>xs ag ys.
                     orEmpty (activeGrants edited) = xs @ ag # ys
                     \<and> (\<forall>y\<in>set ys. ag_grantNumber y \<noteq> ag_grantNumber ag) \<longrightarrow>
                     filter (\<lambda>r. ag_grantNumber r = ag_grantNumber ag) merged = [ag])))"
proof (intro conjI impI)
  assume m: "mergeData ops d imported = Inr md"
  let ?imp = "orEmpty (activeGrants imported)"
  let ?merged = "if ?imp = [] then existing else mergeActiveGrants ops existing ?imp"
  have a: "activeGrants md = Some ?merged"
    using mergeData_activeGrants[OF m assms(1)] .
  have b: "distinct (map ag_grantNumber ?merged)"
    using assms(2) by (simp add: distinct_mergeActiveGrants)
  have c: "\<exists>pv ps. filter (\<lambda>r. ag_grantNumber r = ag_grantNumber ag) ?merged
                      = [ag \<lparr> ag_previousAwardValue := pv, ag_previousAwardStatus := ps \<rparr>]"
    if "?imp = xs @ ag # ys \<and> (\<forall>y\<in>set ys. ag_grantNumber y \<noteq> ag_grantNumber ag)"
    for xs ag ys
  proof -
    from that have ne: "?imp \<noteq> []" and ys: "\<forall>y\<in>set ys. ag_grantNumber y \<noteq> ag_grantNumber ag"
      and eq: "?imp = xs @ ag # ys" by auto
    let ?r = "detect ops (foldl (mergeStep ops) (existingMap existing) xs) ag"
    have "filter (\<lambda>r. ag_grantNumber r = ag_grantNumber ag) ?merged = [?r]"
      using merged_record[OF ys, of ops existing xs] ne eq by simp
    also have "?r = ag \<lparr> ag_previousAwardValue := ag_previousAwardValue ?r,
                          ag_previousAwardStatus := ag_previousAwardStatus ?r \<rparr>"
      by (rule detect_fields)
    finally show ?thesis by blast
  qed
  from a b c show "\<exists>merged. activeGrants md = Some merged
               \<and> distinct (map ag_grantNumber merged)
               \<and> (\<forall>xs ag ys.
                     orEmpty (activeGrants imported) = xs @ ag # ys
                     \<and> (\<forall>y\<in>set ys. ag_grantNumber y \<noteq> ag_grantNumber ag) \<longrightarrow>
                     (\<exists>pv ps. filter (\<lambda>r. ag_grantNumber r = ag_grantNumber ag) merged
                        = [ag \<lparr> ag_previousAwardValue := pv, ag_previousAwardStatus := ps \<rparr>]))"
    by blast
next
  assume m: "applyChanges ops d edited = Inr nd"
  let ?imp = "orEmpty (activeGrants edited)"
  let ?merged = "if ?imp = [] then existing else applyActiveGrants existing ?imp"
  have a: "activeGrants nd = Some ?merged"
    using applyChanges_activeGrants[OF m assms(1)] .
  have b: "distinct (map ag_grantNumber ?merged)"
    using assms(2) by (simp add: distinct_applyActiveGrants)
  have c: "filter (\<lambda>r. ag_grantNumber r = ag_grantNumber ag) ?merged = [ag]"
    if "?imp = xs @ ag # ys \<and> (\<forall>y\<in>set ys. ag_grantNumber y \<noteq> ag_grantNumber ag)"
    for xs ag ys
  proof -
    from that have ne: "?imp \<noteq> []" and ys: "\<forall>y\<in>set ys. ag_grantNumber y \<noteq> ag_grantNumber ag"
      and eq: "?imp = xs @ ag # ys" by auto
    show ?thesis using applied_record[OF ys, of existing xs] ne eq by simp
  qed
  from a b c show "\<exists>merged. activeGrants nd = Some merged
               \<and> distinct (map ag_grantNumber merged)
               \<and> (\<forall>xs ag ys.
                     orEmpty (activeGrants edited) = xs @ ag # ys
                     \<and> (\<forall>y\<in>set ys. ag_grantNumber y \<noteq> ag_grantNumber ag) \<longrightarrow>
                     filter (\<lambda>r. ag_grantNumber r = ag_grantNumber ag) merged = [ag])"
    by blast
qed

theorem activeGrants_one_per_grantNumber_witness:
  "activeGrants sampleData = Some [agDisc, agTran]
   \<and> distinct (map ag_grantNumber [agDisc, agTran])
   \<and> (\<exists>md merged pv ps. mergeData wholeNumbers sampleData sampleImport = Inr md
         \<and> activeGrants md = Some merged
         \<and> distinct (map ag_grantNumber merged)
         \<and> filter (\<lambda>r. ag_grantNumber r = ag_grantNumber agDiscClosed) merged
             = [agDiscClosed \<lparr> ag_previousAwardValue := pv, ag_previousAwardStatus := ps \<rparr>])
   \<and> (\<exists>nd merged. applyChanges wholeNumbers sampleData sampleImport = Inr nd
         \<and> activeGrants nd = Some merged
         \<and> distinct (map ag_grantNumber merged)
         \<and> filter (\<lambda>r. ag_grantNumber r = ag_grantNumber agDiscClosed) merged = [agDiscClosed])"
proof -
  obtain nd where nd: "applyChanges wholeNumbers sampleData sampleImport = Inr nd"
    using applyChanges_sample by blast
  obtain md where md: "mergeData wholeNumbers sampleData sampleImport = Inr md"
    using mergeData_sample by blast
  have a: "activeGrants sampleData = Some [agDisc, agTran]"
    by (simp add: data_defs)
  have d: "distinct (map ag_grantNumber [agDisc, agTran])"
    by (simp add: sample_defs js_def)
  have i: "orEmpty (activeGrants sampleImport) = [] @ agDiscClosed # []
           \<and> (\<forall>y\<in>set []. ag_grantNumber y \<noteq> ag_grantNumber agDiscClosed)"
    by (simp add: data_defs orEmpty_def)
  note t = activeGrants_one_per_grantNumber[OF a d, of wholeNumbers sampleImport md sampleImport nd]
  from mp[OF conjunct1[OF t] md] obtain merged where
    m1: "activeGrants md = Some merged" "distinct (map ag_grantNumber merged)"
    and m1c: "\<forall>xs ag ys. orEmpty (activeGrants sampleImport) = xs @ ag # ys
          \<and> (\<forall>y\<in>set ys. ag_grantNumber y \<noteq> ag_grantNumber ag) \<longrightarrow>
          (\<exists>pv ps. filter (\<lambda>r. ag_grantNumber r = ag_grantNumber ag) merged
             = [ag \<lparr> ag_previousAwardValue := pv, ag_previousAwardStatus := ps \<rparr>])"
    by (elim exE conjE)
  from mp[OF conjunct2[OF t] nd] obtain merged' where
    m2: "activeGrants nd = Some merged'" "distinct (map ag_grantNumber merged')"
    and m2c: "\<forall>xs ag ys. orEmpty (activeGrants sampleImport) = xs @ ag # ys
          \<and> (\<forall>y\<in>set ys. ag_grantNumber y \<noteq> ag_grantNumber ag) \<longrightarrow>
          filter (\<lambda>r. ag_grantNumber r = ag_grantNumber ag) merged' = [ag]"
    by (elim exE conjE)
  from m1c[rule_format, OF i] obtain pv ps where
    f1: "filter (\<lambda>r. ag_grantNumber r = ag_grantNumber agDiscClosed) merged
       = [agDiscClosed \<lparr> ag_previousAwardValue := pv, ag_previousAwardStatus := ps \<rparr>]"
    by (elim exE)
  have f2: "filter (\<lambda>r. ag_grantNumber r = ag_grantNumber agDiscClosed) merged' = [agDiscClosed]"
    by (rule m2c[rule_format, OF i])
  have p1: "\<exists>md merged pv ps. mergeData wholeNumbers sampleData sampleImport = Inr md
         \<and> activeGrants md = Some merged
         \<and> distinct (map ag_grantNumber merged)
         \<and> filter (\<lambda>r. ag_grantNumber r = ag_grantNumber agDiscClosed) merged
             = [agDiscClosed \<lparr> ag_previousAwardValue := pv, ag_previousAwardStatus := ps \<rparr>]"
    using md m1 f1 by (intro exI conjI)
  have p2: "\<exists>nd merged. applyChanges wholeNumbers sampleData sampleImport = Inr nd
         \<and> activeGrants nd = Some merged
         \<and> distinct (map ag_grantNumber merged)
         \<and> filter (\<lambda>r. ag_grantNumber r = ag_grantNumber agDiscClosed) merged = [agDiscClosed]"
    using nd m2 f2 by (intro exI conjI)
  from a d p1 p2 show ?thesis by (intro conjI)
qed

end
